theory Spec2Isabelle
  imports Main
begin

section \<open>Python strings and integers\<close>

text \<open>
  A Python \<open>str\<close> is modelled as its UTF-8 encoding, a \<open>string\<close> of bytes. The
  operations the bot applies to strings (equality, \<open>startswith\<close>, \<open>split("_")\<close>,
  \<open>"_".join\<close>, concatenation) act on the encoding exactly as they act on the code
  points, because an ASCII byte never occurs inside the encoding of another character.
\<close>

datatype py_error =
    ValueError | AttributeError | IndexError | TypeError
  | DetachedInstanceError | TelegramError

definition startswith :: "string \<Rightarrow> string \<Rightarrow> bool" where
  "startswith s p = (take (length p) s = p)"

text \<open>\<open>s.split(c)\<close>: never empty, the empty string gives one empty part.\<close>

fun split_on :: "char \<Rightarrow> string \<Rightarrow> string list" where
  "split_on c [] = [[]]"
| "split_on c (x # xs) =
     (if x = c then [] # split_on c xs
      else (case split_on c xs of
              [] \<Rightarrow> [[x]]
            | p # ps \<Rightarrow> (x # p) # ps))"

text \<open>\<open>sep.join(parts)\<close>.\<close>

fun join :: "string \<Rightarrow> string list \<Rightarrow> string" where
  "join sep [] = []"
| "join sep [p] = p"
| "join sep (p # q # ps) = p @ sep @ join sep (q # ps)"

text \<open>
  \<open>int(s)\<close> on ASCII strings: surrounding white space is stripped, one sign is
  allowed, then at least one decimal digit must follow, with single underscores allowed
  between digits, and nothing else. \<open>None\<close> stands for the \<open>ValueError\<close> that
  \<open>int\<close> raises. Python also accepts the decimal digits and the white space of
  Unicode outside ASCII; these are not modelled, so the model is that of \<open>int\<close> on
  the strings that \<open>is_ascii\<close> accepts.
\<close>

definition is_ascii :: "string \<Rightarrow> bool" where
  "is_ascii s = list_all (\<lambda>c. (of_char c :: nat) < 128) s"

definition is_space :: "char \<Rightarrow> bool" where
  "is_space c = (let n = (of_char c :: nat) in (9 \<le> n \<and> n \<le> 13) \<or> (28 \<le> n \<and> n \<le> 32))"

definition is_digit :: "char \<Rightarrow> bool" where
  "is_digit c = (let n = (of_char c :: nat) in 48 \<le> n \<and> n \<le> 57)"

definition strip :: "string \<Rightarrow> string" where
  "strip s = rev (dropWhile is_space (rev (dropWhile is_space s)))"

fun digits_value :: "nat \<Rightarrow> string \<Rightarrow> nat option" where
  "digits_value acc [] = Some acc"
| "digits_value acc (c # cs) =
     (if is_digit c then digits_value (10 * acc + (of_char c - 48)) cs
      else if c = CHR ''_'' then
        (case cs of
           [] \<Rightarrow> None
         | d # ds \<Rightarrow> if is_digit d then digits_value acc cs else None)
      else None)"

definition py_nat :: "string \<Rightarrow> nat option" where
  "py_nat s =
     (case s of
        [] \<Rightarrow> None
      | c # cs \<Rightarrow> if is_digit c then digits_value 0 s else None)"

definition py_int :: "string \<Rightarrow> int option" where
  "py_int s =
     (case strip s of
        [] \<Rightarrow> None
      | c # cs \<Rightarrow>
          if c = CHR ''-'' then map_option (\<lambda>n. - int n) (py_nat cs)
          else if c = CHR ''+'' then map_option int (py_nat cs)
          else map_option int (py_nat (c # cs)))"

text \<open>\<open>str(n)\<close> for an integer, as the f-strings of the bot format it.\<close>

definition digit_char :: "nat \<Rightarrow> char" where
  "digit_char d = ''0123456789'' ! d"

fun str_nat :: "nat \<Rightarrow> string" where
  "str_nat n =
     (if n < 10 then [digit_char n]
      else str_nat (n div 10) @ [digit_char (n mod 10)])"

declare str_nat.simps [simp del]

definition str_int :: "int \<Rightarrow> string" where
  "str_int i = (if i < 0 then CHR ''-'' # str_nat (nat (- i)) else str_nat (nat i))"

section \<open>The tables of models.py\<close>

text \<open>
  A \<open>datetime\<close> is a number of seconds since the epoch (naive UTC, as
  \<open>datetime.utcnow()\<close> gives it); its \<open>date()\<close> is the day number. A function
  that reads the clock takes the time of the call as its argument \<open>now\<close>.
\<close>

type_synonym datetime = int

definition date_of :: "datetime \<Rightarrow> int" where
  "date_of t = t div 86400"

record user =
  u_id :: int
  u_telegram_id :: int
  u_username :: "string option"
  u_timezone :: string
  u_is_active :: bool
  u_created_at :: datetime

record schedule =
  s_id :: int
  s_user_id :: int
  s_time :: string
  s_is_enabled :: bool
  s_created_at :: datetime

record question =
  q_id :: int
  q_category :: string
  q_question_text :: string
  q_response_type :: string
  q_order :: int
  q_is_active :: bool

record response =
  r_id :: int
  r_user_id :: int
  r_question_id :: int
  r_answer :: string
  r_responded_at :: datetime
  r_session_id :: "string option"

record conversation_state =
  cs_id :: int
  cs_telegram_id :: int
  cs_current_question_id :: "int option"
  cs_session_id :: "string option"
  cs_state :: "string option"
  cs_updated_at :: datetime

text \<open>The persisted database: every table as the list of its rows, in insertion order.\<close>

record database =
  users :: "user list"
  schedules :: "schedule list"
  questions :: "question list"
  responses :: "response list"
  conversation_states :: "conversation_state list"

text \<open>
  An integer primary key on SQLite (the configured default database) is the row id:
  one more than the largest id of the table, 1 for an empty table.
\<close>

definition next_id :: "int list \<Rightarrow> int" where
  "next_id ids = foldr max ids 0 + 1"

definition default_timezone :: string where
  "default_timezone = ''UTC''"

definition find_user :: "database \<Rightarrow> int \<Rightarrow> user option" where
  "find_user db telegram_id = find (\<lambda>u. u_telegram_id u = telegram_id) (users db)"

definition find_state :: "database \<Rightarrow> int \<Rightarrow> conversation_state option" where
  "find_state db telegram_id =
     find (\<lambda>c. cs_telegram_id c = telegram_id) (conversation_states db)"

definition find_question :: "database \<Rightarrow> int \<Rightarrow> question option" where
  "find_question db question_id = find (\<lambda>q. q_id q = question_id) (questions db)"

section \<open>questions.py: the static question bank\<close>

record bank_entry =
  b_category :: string
  b_question_text :: string
  b_response_type :: string
  b_options :: "string list option"
  b_order :: int

definition QUESTION_BANK :: "bank_entry list" where
  "QUESTION_BANK =
  [
   \<lparr>b_category = ''mood'',
    b_question_text = ''How are you feeling right now?'',
    b_response_type = ''yes_no'',
    b_options = Some [''Great '' @ [CHR 0xF0, CHR 0x9F, CHR 0x98, CHR 0x8A], ''Good '' @ [CHR 0xF0, CHR 0x9F, CHR 0x99, CHR 0x82], ''Okay '' @ [CHR 0xF0, CHR 0x9F, CHR 0x98, CHR 0x90], ''Not great '' @ [CHR 0xF0, CHR 0x9F, CHR 0x98, CHR 0x94]],
    b_order = 1\<rparr>,
   \<lparr>b_category = ''mood'',
    b_question_text = ''Do you feel energized today?'',
    b_response_type = ''yes_no'',
    b_options = Some [''Yes '' @ [CHR 0xE2, CHR 0x9A, CHR 0xA1], ''No '' @ [CHR 0xF0, CHR 0x9F, CHR 0x98, CHR 0xB4]],
    b_order = 2\<rparr>,
   \<lparr>b_category = ''mood'',
    b_question_text = ''Are you feeling stressed or anxious?'',
    b_response_type = ''yes_no'',
    b_options = Some [''Yes '' @ [CHR 0xF0, CHR 0x9F, CHR 0x98, CHR 0xB0], ''No '' @ [CHR 0xF0, CHR 0x9F, CHR 0x98, CHR 0x8C]],
    b_order = 3\<rparr>,
   \<lparr>b_category = ''gratitude'',
    b_question_text = ''Did something make you smile today?'',
    b_response_type = ''yes_no'',
    b_options = Some [''Yes '' @ [CHR 0xF0, CHR 0x9F, CHR 0x98, CHR 0x8A], ''No '' @ [CHR 0xF0, CHR 0x9F, CHR 0x98, CHR 0x90]],
    b_order = 4\<rparr>,
   \<lparr>b_category = ''gratitude'',
    b_question_text = ''Are you grateful for someone in your life right now?'',
    b_response_type = ''yes_no'',
    b_options = Some [''Yes '' @ [CHR 0xE2, CHR 0x9D, CHR 0xA4, CHR 0xEF, CHR 0xB8, CHR 0x8F], ''No''],
    b_order = 5\<rparr>,
   \<lparr>b_category = ''gratitude'',
    b_question_text = ''Did you experience a moment of beauty or peace today?'',
    b_response_type = ''yes_no'',
    b_options = Some [''Yes '' @ [CHR 0xF0, CHR 0x9F, CHR 0x8C, CHR 0x9F], ''No''],
    b_order = 6\<rparr>,
   \<lparr>b_category = ''productivity'',
    b_question_text = ''Did you accomplish something you'' @ [CHR 0x27] @ ''re proud of today?'',
    b_response_type = ''yes_no'',
    b_options = Some [''Yes '' @ [CHR 0xF0, CHR 0x9F, CHR 0x8E, CHR 0x89], ''No''],
    b_order = 7\<rparr>,
   \<lparr>b_category = ''productivity'',
    b_question_text = ''Are you making progress on your important goals?'',
    b_response_type = ''yes_no'',
    b_options = Some [''Yes '' @ [CHR 0xF0, CHR 0x9F, CHR 0x8E, CHR 0xAF], ''No''],
    b_order = 8\<rparr>,
   \<lparr>b_category = ''productivity'',
    b_question_text = ''Did you focus well today?'',
    b_response_type = ''yes_no'',
    b_options = Some [''Yes '' @ [CHR 0xF0, CHR 0x9F, CHR 0xA7, CHR 0xA0], ''No '' @ [CHR 0xF0, CHR 0x9F, CHR 0x98, CHR 0xB5]],
    b_order = 9\<rparr>,
   \<lparr>b_category = ''productivity'',
    b_question_text = ''Do you have a clear plan for tomorrow?'',
    b_response_type = ''yes_no'',
    b_options = Some [''Yes '' @ [CHR 0xF0, CHR 0x9F, CHR 0x93, CHR 0x9D], ''No''],
    b_order = 10\<rparr>,
   \<lparr>b_category = ''self_care'',
    b_question_text = ''Did you get enough sleep last night?'',
    b_response_type = ''yes_no'',
    b_options = Some [''Yes '' @ [CHR 0xF0, CHR 0x9F, CHR 0x98, CHR 0xB4], ''No '' @ [CHR 0xF0, CHR 0x9F, CHR 0xA5, CHR 0xB1]],
    b_order = 11\<rparr>,
   \<lparr>b_category = ''self_care'',
    b_question_text = ''Did you exercise or move your body today?'',
    b_response_type = ''yes_no'',
    b_options = Some [''Yes '' @ [CHR 0xF0, CHR 0x9F, CHR 0x92, CHR 0xAA], ''No''],
    b_order = 12\<rparr>,
   \<lparr>b_category = ''self_care'',
    b_question_text = ''Did you eat healthy meals today?'',
    b_response_type = ''yes_no'',
    b_options = Some [''Yes '' @ [CHR 0xF0, CHR 0x9F, CHR 0xA5, CHR 0x97], ''No''],
    b_order = 13\<rparr>,
   \<lparr>b_category = ''self_care'',
    b_question_text = ''Did you take time for yourself today?'',
    b_response_type = ''yes_no'',
    b_options = Some [''Yes '' @ [CHR 0xF0, CHR 0x9F, CHR 0xA7, CHR 0x98], ''No''],
    b_order = 14\<rparr>,
   \<lparr>b_category = ''self_care'',
    b_question_text = ''Did you connect with friends or family today?'',
    b_response_type = ''yes_no'',
    b_options = Some [''Yes '' @ [CHR 0xF0, CHR 0x9F, CHR 0x91, CHR 0xA5], ''No''],
    b_order = 15\<rparr>,
   \<lparr>b_category = ''self_care'',
    b_question_text = ''Did you stay hydrated today?'',
    b_response_type = ''yes_no'',
    b_options = Some [''Yes '' @ [CHR 0xF0, CHR 0x9F, CHR 0x92, CHR 0xA7], ''No''],
    b_order = 16\<rparr>
  ]"


section \<open>bot.py: keyboards\<close>

record button =
  btn_text :: string
  btn_callback_data :: string

type_synonym keyboard = "button list list"

definition InlineKeyboardButton :: "string \<Rightarrow> string \<Rightarrow> button" where
  "InlineKeyboardButton label data = \<lparr>btn_text = label, btn_callback_data = data\<rparr>"

definition yes_button :: "question \<Rightarrow> button" where
  "yes_button question =
     InlineKeyboardButton (''Yes '' @ [CHR 0xE2, CHR 0x9C, CHR 0x85])
       (''answer_yes_'' @ str_int (q_id question))"

definition no_button :: "question \<Rightarrow> button" where
  "no_button question =
     InlineKeyboardButton (''No '' @ [CHR 0xE2, CHR 0x9D, CHR 0x8C])
       (''answer_no_'' @ str_int (q_id question))"

definition skip_button :: "question \<Rightarrow> button" where
  "skip_button question =
     InlineKeyboardButton (''Skip '' @ [CHR 0xE2, CHR 0x8F, CHR 0xAD, CHR 0xEF, CHR 0xB8, CHR 0x8F])
       (''skip_'' @ str_int (q_id question))"

definition option_button :: "question \<Rightarrow> string \<Rightarrow> button" where
  "option_button question option =
     InlineKeyboardButton option (''answer_'' @ option @ ''_'' @ str_int (q_id question))"

text \<open>
  The loop over the custom options: \<open>row\<close> collects buttons and is flushed to the
  keyboard when it holds two; a last, shorter row is flushed after the loop.
\<close>

fun option_rows :: "button list \<Rightarrow> button list \<Rightarrow> keyboard" where
  "option_rows row [] = (if row = [] then [] else [row])"
| "option_rows row (b # bs) =
     (let row' = row @ [b]
      in if length row' = 2 then row' # option_rows [] bs else option_rows row' bs)"

text \<open>
  \<open>get_question_options\<close> reads the module-level \<open>QUESTION_BANK\<close>; the bank is an
  argument here, so that the properties hold of every bank. \<open>q_data\<close> is the first
  entry whose text equals the question's; an entry is a non-empty dict, so
  \<open>not q_data\<close> holds exactly when no entry matched.
\<close>

definition get_question_options :: "bank_entry list \<Rightarrow> question \<Rightarrow> keyboard" where
  "get_question_options bank question =
     (let q_data = find (\<lambda>q. b_question_text q = q_question_text question) bank;
          default_rows = [[yes_button question, no_button question]];
          rows =
            (case q_data of
               None \<Rightarrow> default_rows
             | Some entry \<Rightarrow>
                 (case b_options entry of
                    None \<Rightarrow> default_rows
                  | Some opts \<Rightarrow> option_rows [] (map (option_button question) opts)))
      in rows @ [[skip_button question]])"

section \<open>bot.py: users, conversation state, the question sequence\<close>

text \<open>
  \<open>get_or_create_user\<close> returns the new database, the row, and whether the row was
  created by this call.
\<close>

definition get_or_create_user ::
  "database \<Rightarrow> int \<Rightarrow> string option \<Rightarrow> datetime \<Rightarrow> database \<times> user \<times> bool" where
  "get_or_create_user db telegram_id username now =
     (case find_user db telegram_id of
        Some u \<Rightarrow> (db, u, False)
      | None \<Rightarrow>
          (let u = \<lparr>u_id = next_id (map u_id (users db)), u_telegram_id = telegram_id,
                     u_username = username, u_timezone = default_timezone,
                     u_is_active = True, u_created_at = now\<rparr>
           in (db\<lparr>users := users db @ [u]\<rparr>, u, True)))"

definition new_conversation_state :: "database \<Rightarrow> int \<Rightarrow> datetime \<Rightarrow> conversation_state" where
  "new_conversation_state db telegram_id now =
     \<lparr>cs_id = next_id (map cs_id (conversation_states db)), cs_telegram_id = telegram_id,
      cs_current_question_id = None, cs_session_id = None, cs_state = None,
      cs_updated_at = now\<rparr>"

definition get_conversation_state ::
  "database \<Rightarrow> int \<Rightarrow> datetime \<Rightarrow> database \<times> conversation_state" where
  "get_conversation_state db telegram_id now =
     (case find_state db telegram_id of
        Some state \<Rightarrow> (db, state)
      | None \<Rightarrow>
          (let state = new_conversation_state db telegram_id now
           in (db\<lparr>conversation_states := conversation_states db @ [state]\<rparr>, state)))"

text \<open>The UPDATE of one conversation-state row, found by its primary key.\<close>

definition write_state :: "database \<Rightarrow> conversation_state \<Rightarrow> database" where
  "write_state db state =
     db\<lparr>conversation_states :=
          map (\<lambda>c. if cs_id c = cs_id state then state else c) (conversation_states db)\<rparr>"

text \<open>An argument that is \<open>None\<close> leaves its column as it is.\<close>

definition update_conversation_state ::
  "database \<Rightarrow> int \<Rightarrow> int option \<Rightarrow> string option \<Rightarrow> string option \<Rightarrow> datetime \<Rightarrow> database" where
  "update_conversation_state db telegram_id question_id session_id state now =
     (let found = find_state db telegram_id;
          conv_state = (case found of Some c \<Rightarrow> c
                        | None \<Rightarrow> new_conversation_state db telegram_id now);
          c1 = (if question_id \<noteq> None
                then conv_state\<lparr>cs_current_question_id := question_id\<rparr> else conv_state);
          c2 = (if session_id \<noteq> None then c1\<lparr>cs_session_id := session_id\<rparr> else c1);
          c3 = (if state \<noteq> None then c2\<lparr>cs_state := state\<rparr> else c2);
          c4 = c3\<lparr>cs_updated_at := now\<rparr>
      in (case found of
            Some c \<Rightarrow> write_state db c4
          | None \<Rightarrow> db\<lparr>conversation_states := conversation_states db @ [c4]\<rparr>))"

text \<open>
  \<open>.order_by(Question.order).first()\<close>: the row of least \<open>order\<close>; among rows of
  equal \<open>order\<close> the database is free to choose, and the model takes the earliest row.
\<close>

fun first_by_order :: "question list \<Rightarrow> question option" where
  "first_by_order [] = None"
| "first_by_order (q # qs) =
     (case first_by_order qs of
        None \<Rightarrow> Some q
      | Some r \<Rightarrow> if q_order q \<le> q_order r then Some q else Some r)"

text \<open>
  \<open>get_next_question\<close>: with no current question the first active one; otherwise the
  first active one of greater \<open>order\<close>. When the current id is not in the table
  \<open>current_q\<close> is \<open>None\<close> and \<open>current_q.order\<close> raises \<open>AttributeError\<close>.
\<close>

definition get_next_question :: "database \<Rightarrow> int option \<Rightarrow> py_error + question option" where
  "get_next_question db current_question_id =
     (case current_question_id of
        None \<Rightarrow> Inr (first_by_order (filter q_is_active (questions db)))
      | Some qid \<Rightarrow>
          (case find_question db qid of
             None \<Rightarrow> Inl AttributeError
           | Some current_q \<Rightarrow>
               Inr (first_by_order
                      (filter (\<lambda>q. q_is_active q \<and> q_order current_q < q_order q)
                         (questions db)))))"

section \<open>bot.py: the command and callback handlers\<close>

text \<open>
  What a handler sends back, as a tagged value in place of the message text: the text
  of a question message is fixed by the question, its markup by the keyboard.
\<close>

datatype reply =
    SessionExpired
  | ShowQuestion question keyboard
  | SessionComplete
  | AccountInactive
  | NoQuestionsAvailable
  | Welcome

text \<open>
  \<open>journal_command\<close>. The session id is \<open>str(uuid4())\<close>, an argument here.
  A row that \<open>get_or_create_user\<close> has just created was committed and its session
  closed: SQLAlchemy expires the attributes of a row at commit and cannot reload them
  once the row is detached, so reading \<open>user.is_active\<close> raises
  \<open>DetachedInstanceError\<close>; a row loaded by the query is read without error.
\<close>

definition journal_command ::
  "database \<Rightarrow> int \<Rightarrow> string option \<Rightarrow> string \<Rightarrow> datetime \<Rightarrow> database \<times> (py_error + reply)" where
  "journal_command db telegram_id username session_id now =
     (case get_or_create_user db telegram_id username now of
        (db1, user, created) \<Rightarrow>
          if created then (db1, Inl DetachedInstanceError)
          else if \<not> u_is_active user then (db1, Inr AccountInactive)
          else
            (case get_next_question db1 None of
               Inl e \<Rightarrow> (db1, Inl e)
             | Inr None \<Rightarrow> (db1, Inr NoQuestionsAvailable)
             | Inr (Some first_question) \<Rightarrow>
                 (update_conversation_state db1 telegram_id (Some (q_id first_question))
                    (Some session_id) (Some ''journaling'') now,
                  Inr (ShowQuestion first_question
                         (get_question_options QUESTION_BANK first_question)))))"

definition start_command ::
  "database \<Rightarrow> int \<Rightarrow> string option \<Rightarrow> datetime \<Rightarrow> database \<times> reply" where
  "start_command db telegram_id username now =
     (case get_or_create_user db telegram_id username now of
        (db1, user, created) \<Rightarrow> (db1, Welcome))"

text \<open>
  The callback data of an answer button, parsed as \<open>handle_answer_callback\<close> does:
  the question id and the answer, \<open>"skipped"\<close> for a skip button. A \<open>skip_\<close> prefix
  guarantees a second part, so \<open>split("_")[1]\<close> cannot be out of range there.
\<close>

definition parse_callback :: "string \<Rightarrow> py_error + (int \<times> string)" where
  "parse_callback callback_data =
     (let parts = split_on CHR ''_'' callback_data
      in if startswith callback_data ''skip_'' then
           (case tl parts of
              [] \<Rightarrow> Inl IndexError
            | p # ps \<Rightarrow>
                (case py_int p of
                   None \<Rightarrow> Inl ValueError
                 | Some question_id \<Rightarrow> Inr (question_id, ''skipped'')))
         else
           (case py_int (last parts) of
              None \<Rightarrow> Inl ValueError
            | Some question_id \<Rightarrow> Inr (question_id, join ''_'' (butlast (tl parts)))))"

text \<open>
  Lines 329 to 339: unless the answer is \<open>"skipped"\<close>, a \<open>Response\<close> row is added and
  committed on its own. The result is the list of states this step committed (none or
  one) and the database after it. With no \<open>User\<close> row, \<open>user.id\<close> raises
  \<open>AttributeError\<close> before anything is written. The question id is stored as it
  came: SQLite does not check the foreign key unless asked to. Ids are taken to lie in
  the 64-bit range of an SQLite integer.
\<close>

definition save_response ::
  "database \<Rightarrow> int \<Rightarrow> int \<Rightarrow> string \<Rightarrow> conversation_state \<Rightarrow> datetime
     \<Rightarrow> py_error + (database list \<times> database)" where
  "save_response db telegram_id question_id answer conv_state now =
     (if answer \<noteq> ''skipped'' then
        (case find_user db telegram_id of
           None \<Rightarrow> Inl AttributeError
         | Some user \<Rightarrow>
             (let response = \<lparr>r_id = next_id (map r_id (responses db)), r_user_id = u_id user,
                               r_question_id = question_id, r_answer = answer,
                               r_responded_at = now, r_session_id = cs_session_id conv_state\<rparr>;
                  db1 = db\<lparr>responses := responses db @ [response]\<rparr>
              in Inr ([db1], db1)))
      else Inr ([], db))"

text \<open>
  \<open>handle_answer_callback\<close>, up to the awaited \<open>query.edit_message_text\<close> that
  ends each of its branches. The result is the list of database states the handler
  committed, in order (each \<open>session.commit()\<close> that wrote something adds one), and
  either the exception raised before any message, or the message the handler goes on
  to send. The state row is written with \<open>onupdate\<close> refreshing \<open>updated_at\<close>.
\<close>

definition handle_answer_callback ::
  "database \<Rightarrow> int \<Rightarrow> string \<Rightarrow> datetime \<Rightarrow> database list \<times> (py_error + reply)" where
  "handle_answer_callback db telegram_id callback_data now =
     (case parse_callback callback_data of
        Inl e \<Rightarrow> ([], Inl e)
      | Inr (question_id, answer) \<Rightarrow>
          (case find_state db telegram_id of
             None \<Rightarrow> ([], Inr SessionExpired)
           | Some conv_state \<Rightarrow>
               if cs_state conv_state \<noteq> Some ''journaling'' then ([], Inr SessionExpired)
               else
                 (case save_response db telegram_id question_id answer conv_state now of
                    Inl e \<Rightarrow> ([], Inl e)
                  | Inr (commits, db1) \<Rightarrow>
                      (case get_next_question db1 (Some question_id) of
                         Inl e \<Rightarrow> (commits, Inl e)
                       | Inr (Some next_question) \<Rightarrow>
                           (commits @
                              [write_state db1
                                 (conv_state\<lparr>cs_current_question_id := Some (q_id next_question),
                                              cs_updated_at := now\<rparr>)],
                            Inr (ShowQuestion next_question
                                   (get_question_options QUESTION_BANK next_question)))
                       | Inr None \<Rightarrow>
                           (commits @
                              [write_state db1
                                 (conv_state\<lparr>cs_state := None,
                                              cs_current_question_id := None,
                                              cs_updated_at := now\<rparr>)],
                            Inr SessionComplete)))))"

text \<open>
  The awaited \<open>query.edit_message_text\<close>: the transport can refuse the message with
  a \<open>TelegramError\<close>, which nothing in the handler catches. \<open>delivered\<close> says
  whether the call succeeds.
\<close>

definition send_reply :: "bool \<Rightarrow> py_error + reply \<Rightarrow> py_error + reply" where
  "send_reply delivered outcome =
     (case outcome of
        Inl e \<Rightarrow> Inl e
      | Inr r \<Rightarrow> if delivered then Inr r else Inl TelegramError)"

text \<open>
  The whole of \<open>handle_answer_callback\<close>, the sending of the message included: the
  commits are those made before the message is sent, the outcome is the exception that
  ended the handler (a failed delivery among them) or the message delivered.
\<close>

definition handle_answer_callback_and_reply ::
  "bool \<Rightarrow> database \<Rightarrow> int \<Rightarrow> string \<Rightarrow> datetime
     \<Rightarrow> database list \<times> (py_error + reply)" where
  "handle_answer_callback_and_reply delivered db telegram_id callback_data now =
     (case handle_answer_callback db telegram_id callback_data now of
        (commits, outcome) \<Rightarrow> (commits, send_reply delivered outcome))"

text \<open>The database as persisted once a handler has ended: its last commit, if any.\<close>

definition persisted :: "database \<Rightarrow> database list \<Rightarrow> database" where
  "persisted db commits = last (db # commits)"

section \<open>scheduler.py: the schedule table\<close>

text \<open>
  \<open>user.schedules\<close>: the rows of the schedule table that belong to the user.
\<close>

definition user_schedules :: "database \<Rightarrow> user \<Rightarrow> schedule list" where
  "user_schedules db user = filter (\<lambda>s. s_user_id s = u_id user) (schedules db)"

text \<open>
  The rows \<open>add_user_schedule\<close> inserts, one for every element of the list \<open>times\<close>, with
  consecutive fresh ids.
\<close>

fun new_schedules :: "int \<Rightarrow> int \<Rightarrow> datetime \<Rightarrow> string list \<Rightarrow> schedule list" where
  "new_schedules uid i now [] = []"
| "new_schedules uid i now (time_str # time_strs) =
     \<lparr>s_id = i, s_user_id = uid, s_time = time_str, s_is_enabled = True,
      s_created_at = now\<rparr> # new_schedules uid (i + 1) now time_strs"

definition write_user :: "database \<Rightarrow> user \<Rightarrow> database" where
  "write_user db user =
     db\<lparr>users := map (\<lambda>u. if u_id u = u_id user then user else u) (users db)\<rparr>"

text \<open>
  \<open>add_user_schedule\<close>: an unknown user is logged and nothing changes. \<open>if
  timezone_str\<close> is false for \<open>None\<close> and for the empty string. The unit of work
  inserts before it deletes, so the fresh ids lie above every old id.
\<close>

definition add_user_schedule ::
  "database \<Rightarrow> int \<Rightarrow> string list \<Rightarrow> string option \<Rightarrow> datetime \<Rightarrow> database" where
  "add_user_schedule db telegram_id time_strs timezone_str now =
     (case find_user db telegram_id of
        None \<Rightarrow> db
      | Some user \<Rightarrow>
          (let db1 = (case timezone_str of
                        None \<Rightarrow> db
                      | Some tz \<Rightarrow> if tz = [] then db else write_user db (user\<lparr>u_timezone := tz\<rparr>));
               kept = filter (\<lambda>s. s_user_id s \<noteq> u_id user) (schedules db1);
               added = new_schedules (u_id user) (next_id (map s_id (schedules db1))) now time_strs
           in db1\<lparr>schedules := kept @ added\<rparr>))"

text \<open>Deleting the first element that satisfies a predicate: \<open>.first()\<close>, then delete.\<close>

fun delete_first :: "('a \<Rightarrow> bool) \<Rightarrow> 'a list \<Rightarrow> 'a list" where
  "delete_first P [] = []"
| "delete_first P (x # xs) = (if P x then xs else x # delete_first P xs)"

definition remove_user_schedule :: "database \<Rightarrow> int \<Rightarrow> string option \<Rightarrow> database" where
  "remove_user_schedule db telegram_id time_str =
     (case find_user db telegram_id of
        None \<Rightarrow> db
      | Some user \<Rightarrow>
          (if time_str \<noteq> None \<and> time_str \<noteq> Some [] then
             db\<lparr>schedules :=
                  delete_first (\<lambda>s. s_user_id s = u_id user \<and> Some (s_time s) = time_str)
                    (schedules db)\<rparr>
           else db\<lparr>schedules := filter (\<lambda>s. s_user_id s \<noteq> u_id user) (schedules db)\<rparr>))"

text \<open>\<open>get_user_schedules\<close>: the (time, enabled) pairs of the user's rows.\<close>

definition get_user_schedules :: "database \<Rightarrow> int \<Rightarrow> (string \<times> bool) list" where
  "get_user_schedules db telegram_id =
     (case find_user db telegram_id of
        None \<Rightarrow> []
      | Some user \<Rightarrow> map (\<lambda>s. (s_time s, s_is_enabled s)) (user_schedules db user))"

section \<open>scheduler.py: the job table of JournalScheduler\<close>

record job =
  j_telegram_id :: int
  j_hour :: int
  j_minute :: int
  j_timezone :: string

type_synonym jobs = "string \<rightharpoonup> job"

definition job_id :: "int \<Rightarrow> string \<Rightarrow> string" where
  "job_id telegram_id time_str = ''journal_'' @ str_int telegram_id @ ''_'' @ time_str"

text \<open>\<open>hour, minute = map(int, time_str.split(":"))\<close>: exactly two parts, both integers.\<close>

definition parse_time :: "string \<Rightarrow> (int \<times> int) option" where
  "parse_time time_str =
     (case split_on CHR '':'' time_str of
        [h, m] \<Rightarrow>
          (case py_int h of
             None \<Rightarrow> None
           | Some hour \<Rightarrow>
               (case py_int m of None \<Rightarrow> None | Some minute \<Rightarrow> Some (hour, minute)))
      | _ \<Rightarrow> None)"

text \<open>
  \<open>JournalScheduler.add_job\<close>. The whole body is inside \<open>try ... except Exception\<close>,
  which logs the error and returns: no exception leaves \<open>add_job\<close>. The failures are
  the unpacking and \<open>int\<close> of the time string, \<open>pytz.timezone\<close> on a name it does
  not know (the zone database is the argument \<open>known_tz\<close>), and \<open>CronTrigger\<close>
  refusing an hour outside 0..23 or a minute outside 0..59, which happens after an
  existing job of the same id has been removed.
\<close>

definition cron_fields_ok :: "int \<Rightarrow> int \<Rightarrow> bool" where
  "cron_fields_ok hour minute = (0 \<le> hour \<and> hour \<le> 23 \<and> 0 \<le> minute \<and> minute \<le> 59)"

definition add_job :: "(string \<Rightarrow> bool) \<Rightarrow> jobs \<Rightarrow> int \<Rightarrow> string \<Rightarrow> string \<Rightarrow> jobs" where
  "add_job known_tz js telegram_id time_str timezone_str =
     (case parse_time time_str of
        None \<Rightarrow> js
      | Some (hour, minute) \<Rightarrow>
          if \<not> known_tz timezone_str then js
          else
            (let jid = job_id telegram_id time_str;
                 js1 = js(jid := None)
             in if cron_fields_ok hour minute
                then js1(jid \<mapsto> \<lparr>j_telegram_id = telegram_id, j_hour = hour,
                                 j_minute = minute, j_timezone = timezone_str\<rparr>)
                else js1))"

section \<open>bot.py: schedule and settings callbacks, the callback dispatcher\<close>

datatype schedule_reply =
    ScheduleView "string list"
  | NoSchedulesYet
  | CustomScheduleHelp
  | ScheduleSet string

definition handle_schedule_callback ::
  "database \<Rightarrow> int \<Rightarrow> string \<Rightarrow> datetime \<Rightarrow> database \<times> (py_error + schedule_reply)" where
  "handle_schedule_callback db telegram_id callback_data now =
     (if callback_data = ''schedule_view'' then
        (let found = (case find_user db telegram_id of
                        None \<Rightarrow> []
                      | Some user \<Rightarrow> user_schedules db user)
         in if found = [] then (db, Inr NoSchedulesYet)
            else (db, Inr (ScheduleView (map s_time (filter s_is_enabled found)))))
      else if callback_data = ''schedule_custom'' then (db, Inr CustomScheduleHelp)
      else
        (case tl (split_on CHR ''_'' callback_data) of
           [] \<Rightarrow> (db, Inl IndexError)
         | time_str # rest \<Rightarrow>
             (add_user_schedule db telegram_id [time_str] None now, Inr (ScheduleSet time_str))))"

text \<open>
  \<open>session.delete(user)\<close>: the relationships \<open>schedules\<close> and \<open>responses\<close> of
  \<open>User\<close> cascade the delete to the user's rows of those two tables.
  \<open>ConversationState\<close> has no relationship to \<open>User\<close>.
\<close>

definition delete_user :: "database \<Rightarrow> user \<Rightarrow> database" where
  "delete_user db user =
     db\<lparr>users := filter (\<lambda>u. u_id u \<noteq> u_id user) (users db),
        schedules := filter (\<lambda>s. s_user_id s \<noteq> u_id user) (schedules db),
        responses := filter (\<lambda>r. r_user_id r \<noteq> u_id user) (responses db)\<rparr>"

datatype settings_reply =
    NotificationsStatus bool
  | UseScheduleCommand
  | AskTimezone
  | ConfirmClear
  | DataCleared
  | Cancelled
  | NoSettingsReply

definition handle_settings_callback ::
  "database \<Rightarrow> int \<Rightarrow> string \<Rightarrow> database \<times> settings_reply" where
  "handle_settings_callback db telegram_id callback_data =
     (let found = find_user db telegram_id
      in if callback_data = ''settings_toggle'' then
           (case found of
              None \<Rightarrow> (db, NoSettingsReply)
            | Some user \<Rightarrow>
                (write_user db (user\<lparr>u_is_active := \<not> u_is_active user\<rparr>),
                 NotificationsStatus (\<not> u_is_active user)))
         else if callback_data = ''settings_schedule'' then (db, UseScheduleCommand)
         else if callback_data = ''settings_timezone'' then (db, AskTimezone)
         else if callback_data = ''settings_clear'' then (db, ConfirmClear)
         else if callback_data = ''confirm_clear_yes'' then
           (case found of
              None \<Rightarrow> (db, DataCleared)
            | Some user \<Rightarrow> (delete_user db user, DataCleared))
         else if callback_data = ''confirm_clear_no'' then (db, Cancelled)
         else (db, NoSettingsReply))"

datatype callback_reply =
    AnswerReply reply
  | ScheduleReply schedule_reply
  | SettingsReply settings_reply
  | NotHandled

text \<open>
  \<open>button_callback\<close> dispatches on the prefix of the callback data; data with none of
  the four prefixes falls through every branch. The result is the database the handler
  leaves and the message it goes on to send; what is committed does not depend on
  whether that message is delivered.
\<close>

definition button_callback ::
  "database \<Rightarrow> int \<Rightarrow> string \<Rightarrow> datetime \<Rightarrow> database \<times> (py_error + callback_reply)" where
  "button_callback db telegram_id callback_data now =
     (if startswith callback_data ''answer_'' \<or> startswith callback_data ''skip_'' then
        (case handle_answer_callback db telegram_id callback_data now of
           (commits, outcome) \<Rightarrow> (persisted db commits, map_sum id AnswerReply outcome))
      else if startswith callback_data ''schedule_'' then
        (case handle_schedule_callback db telegram_id callback_data now of
           (db1, outcome) \<Rightarrow> (db1, map_sum id ScheduleReply outcome))
      else if startswith callback_data ''settings_'' then
        (case handle_settings_callback db telegram_id callback_data of
           (db1, r) \<Rightarrow> (db1, Inr (SettingsReply r)))
      else (db, Inr NotHandled))"

section \<open>analytics.py: the streak\<close>

text \<open>
  What a row of the query of \<open>get_user_streak\<close> holds. \<open>func.date\<close> is a generic
  SQL function with no declared type, so SQLAlchemy hands on what the driver returns.
  SQLite, the configured database, computes \<open>date(responded_at)\<close> as the text
  \<open>YYYY-MM-DD\<close>; a Python \<open>date\<close>, such as \<open>today\<close>, is a value of another
  kind, and \<open>==\<close> between a \<open>str\<close> and a \<open>date\<close> is false.
\<close>

datatype date_value = DateText string | DateValue int

text \<open>
  The calendar date of a day number (days since 1970-01-01, proleptic Gregorian
  calendar), as (year, month, day), and its ISO text, for the years 0000 to 9999 that
  SQLite's \<open>date\<close> covers.
\<close>

definition civil_of_day :: "int \<Rightarrow> int \<times> int \<times> int" where
  "civil_of_day d =
     (let z = d + 719468;
          era = z div 146097;
          doe = z - era * 146097;
          yoe = (doe - doe div 1460 + doe div 36524 - doe div 146096) div 365;
          doy = doe - (365 * yoe + yoe div 4 - yoe div 100);
          mp = (5 * doy + 2) div 153;
          day = doy - (153 * mp + 2) div 5 + 1;
          month = (if mp < 10 then mp + 3 else mp - 9);
          year = yoe + era * 400 + (if month \<le> 2 then 1 else 0)
      in (year, month, day))"

definition zero_pad :: "nat \<Rightarrow> int \<Rightarrow> string" where
  "zero_pad width n =
     replicate (width - length (str_nat (nat n))) CHR ''0'' @ str_nat (nat n)"

definition iso_date :: "int \<Rightarrow> string" where
  "iso_date d =
     (case civil_of_day d of
        (year, month, day) \<Rightarrow>
          zero_pad 4 year @ ''-'' @ zero_pad 2 month @ ''-'' @ zero_pad 2 day)"

text \<open>
  The query: the distinct values of \<open>date(responded_at)\<close> over the user's responses,
  in descending order. The database compares the texts; for four-digit years that is
  the order of the days, on which the model sorts.
\<close>

definition response_dates :: "database \<Rightarrow> int \<Rightarrow> date_value list" where
  "response_dates db user_id =
     map (\<lambda>d. DateText (iso_date d))
       (rev (sort (remdups (map (\<lambda>r. date_of (r_responded_at r))
                              (filter (\<lambda>r. r_user_id r = user_id) (responses db))))))"

text \<open>
  The loop of \<open>get_user_streak\<close> over the rows: a row counts when it equals
  \<open>current_date\<close> or the day before it, and moves \<open>current_date\<close> to the day
  before that row's date; the first row that does not count ends the loop.
  \<open>response_date - timedelta(days=1)\<close> on a text would raise \<open>TypeError\<close>.
\<close>

fun streak_loop :: "nat \<Rightarrow> int \<Rightarrow> date_value list \<Rightarrow> py_error + nat" where
  "streak_loop streak current_date [] = Inr streak"
| "streak_loop streak current_date (response_date # rows) =
     (if response_date = DateValue current_date \<or> response_date = DateValue (current_date - 1)
      then (case response_date of
              DateValue d \<Rightarrow> streak_loop (streak + 1) (d - 1) rows
            | DateText s \<Rightarrow> Inl TypeError)
      else Inr streak)"

definition get_user_streak :: "database \<Rightarrow> int \<Rightarrow> datetime \<Rightarrow> py_error + nat" where
  "get_user_streak db user_id now =
     (let dates = response_dates db user_id
      in if dates = [] then Inr 0 else streak_loop 0 (date_of now) dates)"

section \<open>Runs of the bot\<close>

text \<open>
  The operations that reach the database, as events: the commands, a button press
  routed by \<open>button_callback\<close>, and direct calls of the settings handler, of
  \<open>get_conversation_state\<close> and of the schedule functions.
\<close>

datatype event =
    StartCommand int "string option" datetime
  | JournalCommand int "string option" string datetime
  | ButtonCallback int string datetime
  | SettingsCallback int string
  | GetConversationState int datetime
  | AddUserSchedule int "string list" "string option" datetime
  | RemoveUserSchedule int "string option"

fun apply_event :: "database \<Rightarrow> event \<Rightarrow> database" where
  "apply_event db (StartCommand tid username now) = fst (start_command db tid username now)"
| "apply_event db (JournalCommand tid username sid now) =
     fst (journal_command db tid username sid now)"
| "apply_event db (ButtonCallback tid callback_data now) =
     fst (button_callback db tid callback_data now)"
| "apply_event db (SettingsCallback tid callback_data) =
     fst (handle_settings_callback db tid callback_data)"
| "apply_event db (GetConversationState tid now) = fst (get_conversation_state db tid now)"
| "apply_event db (AddUserSchedule tid time_strs tz now) =
     add_user_schedule db tid time_strs tz now"
| "apply_event db (RemoveUserSchedule tid time_str) = remove_user_schedule db tid time_str"

definition run :: "database \<Rightarrow> event list \<Rightarrow> database" where
  "run db events = foldl apply_event db events"

text \<open>
  The invariant of the data model, for one row and for the table: the mode is
  \<open>"journaling"\<close> exactly when a question is outstanding and a session id is set.
\<close>

definition row_invariant :: "conversation_state \<Rightarrow> bool" where
  "row_invariant c =
     ((cs_state c = Some ''journaling'') =
      (cs_current_question_id c \<noteq> None \<and> cs_session_id c \<noteq> None))"

definition state_invariant :: "database \<Rightarrow> bool" where
  "state_invariant db = list_all row_invariant (conversation_states db)"

text \<open>
  What the stored state of a user says: the outstanding question, the session id and
  the mode of the user's row, if there is one.
\<close>

definition conversation_of ::
  "database \<Rightarrow> int \<Rightarrow> (int option \<times> string option \<times> string option) option" where
  "conversation_of db telegram_id =
     map_option (\<lambda>c. (cs_current_question_id c, cs_session_id c, cs_state c))
       (find_state db telegram_id)"

section \<open>A small database for concrete runs\<close>

definition q_mood :: question where
  "q_mood = \<lparr>q_id = 1, q_category = ''mood'',
             q_question_text = ''How are you feeling right now?'',
             q_response_type = ''yes_no'', q_order = 1, q_is_active = True\<rparr>"

definition q_gratitude :: question where
  "q_gratitude = \<lparr>q_id = 2, q_category = ''gratitude'',
                  q_question_text = ''Did something make you smile today?'',
                  q_response_type = ''yes_no'', q_order = 2, q_is_active = True\<rparr>"

definition alice :: user where
  "alice = \<lparr>u_id = 1, u_telegram_id = 7, u_username = Some ''alice'',
            u_timezone = ''UTC'', u_is_active = True, u_created_at = 0\<rparr>"

text \<open>Alice is registered, the catalog holds two questions, nothing else is stored.\<close>

definition db_start :: database where
  "db_start = \<lparr>users = [alice], schedules = [], questions = [q_mood, q_gratitude],
               responses = [], conversation_states = []\<rparr>"

text \<open>After \<open>/journal\<close>: Alice is asked question 1 in session \<open>s1\<close>.\<close>

definition cs_asked_1 :: conversation_state where
  "cs_asked_1 = \<lparr>cs_id = 1, cs_telegram_id = 7, cs_current_question_id = Some 1,
                 cs_session_id = Some ''s1'', cs_state = Some ''journaling'',
                 cs_updated_at = 100\<rparr>"

definition db_asked_1 :: database where
  "db_asked_1 = db_start\<lparr>conversation_states := [cs_asked_1]\<rparr>"

text \<open>After the press on the first button of question 1: one response, question 2 outstanding.\<close>

text \<open>
  The first option of question 1 in the bank, and the callback data of its button,
  of the first option of question 2, and of the two skip buttons.
\<close>

definition great :: string where
  "great = ''Great '' @ [CHR 0xF0, CHR 0x9F, CHR 0x98, CHR 0x8A]"

definition press_great_1 :: string where
  "press_great_1 = ''answer_'' @ great @ ''_1''"

definition press_yes_2 :: string where
  "press_yes_2 = ''answer_Yes '' @ [CHR 0xF0, CHR 0x9F, CHR 0x98, CHR 0x8A] @ ''_2''"

definition response_1 :: response where
  "response_1 = \<lparr>r_id = 1, r_user_id = 1, r_question_id = 1, r_answer = great,
                 r_responded_at = 200, r_session_id = Some ''s1''\<rparr>"

definition db_asked_2 :: database where
  "db_asked_2 =
     db_start\<lparr>responses := [response_1],
              conversation_states :=
                [cs_asked_1\<lparr>cs_current_question_id := Some 2, cs_updated_at := 200\<rparr>]\<rparr>"

text \<open>A question whose text is not in the bank.\<close>

definition q_unlisted :: question where
  "q_unlisted = \<lparr>q_id = 17, q_category = ''mood'',
                 q_question_text = ''Did you read a book today?'',
                 q_response_type = ''yes_no'', q_order = 17, q_is_active = True\<rparr>"

text \<open>
  Responses of Alice on three consecutive days, 2024-10-02 to 2024-10-04 (the days
  19998 to 20000 after 1970-01-01), two of them on the second day.
\<close>

definition response_on :: "int \<Rightarrow> int \<Rightarrow> int \<Rightarrow> response" where
  "response_on rid uid day =
     \<lparr>r_id = rid, r_user_id = uid, r_question_id = 1, r_answer = great,
      r_responded_at = day * 86400 + 3600, r_session_id = Some ''s1''\<rparr>"

definition db_recent_days :: database where
  "db_recent_days = db_start\<lparr>responses :=
     [response_on 1 1 19998, response_on 2 1 19999, response_on 3 1 19999,
      response_on 4 1 20000]\<rparr>"

text \<open>
  A catalog whose rows are not stored in the order of their \<open>order\<close> column:
  question 2 has order 3 and question 3 has order 2. Alice is asked question 1.
\<close>

definition q_stress :: question where
  "q_stress = \<lparr>q_id = 2, q_category = ''mood'',
               q_question_text = ''Are you feeling stressed or anxious?'',
               q_response_type = ''yes_no'', q_order = 3, q_is_active = True\<rparr>"

definition q_energy :: question where
  "q_energy = \<lparr>q_id = 3, q_category = ''mood'',
               q_question_text = ''Do you feel energized today?'',
               q_response_type = ''yes_no'', q_order = 2, q_is_active = True\<rparr>"

definition db_shuffled :: database where
  "db_shuffled = \<lparr>users = [alice], schedules = [], questions = [q_mood, q_stress, q_energy],
                  responses = [], conversation_states = [cs_asked_1]\<rparr>"

text \<open>After the skip of question 2: the session is over.\<close>

definition db_done :: database where
  "db_done =
     db_start\<lparr>responses := [response_1],
              conversation_states :=
                [cs_asked_1\<lparr>cs_current_question_id := None, cs_state := None,
                            cs_updated_at := 300\<rparr>]\<rparr>"

section \<open>Callback data and their parse\<close>

lemma split_on_nonempty: "split_on c s \<noteq> []"
  by (induction s) (auto split: list.splits)

lemma split_on_absent: "c \<notin> set s \<Longrightarrow> split_on c s = [s]"
  by (induction s) auto

lemma split_on_append: "split_on c (a @ c # b) = split_on c a @ split_on c b"
proof (induction a)
  case Nil
  then show ?case by simp
next
  case (Cons x a)
  obtain p ps where p: "split_on c a = p # ps"
    using split_on_nonempty [of c a] by (cases "split_on c a") auto
  show ?case using Cons p by simp
qed

lemma join_split_on: "join [c] (split_on c s) = s"
proof (induction s)
  case Nil
  then show ?case by simp
next
  case (Cons x s)
  obtain p ps where p: "split_on c s = p # ps"
    using split_on_nonempty [of c s] by (cases "split_on c s") auto
  show ?case
    using Cons p by (cases ps) auto
qed

lemma digit_char_digit:
  assumes "d < 10"
  shows "is_digit (digit_char d)" and "of_char (digit_char d) - 48 = d"
proof -
  have "d = 0 \<or> d = 1 \<or> d = 2 \<or> d = 3 \<or> d = 4 \<or> d = 5 \<or> d = 6 \<or> d = 7 \<or> d = 8 \<or> d = 9"
    using assms by presburger
  then show "is_digit (digit_char d)" and "of_char (digit_char d) - 48 = d"
    by (auto simp: digit_char_def is_digit_def)
qed

lemma is_digit_plain:
  "is_digit c \<Longrightarrow> c \<noteq> CHR ''_'' \<and> c \<noteq> CHR ''-'' \<and> c \<noteq> CHR ''+'' \<and> \<not> is_space c"
  by (auto simp: is_digit_def is_space_def Let_def)

lemma str_nat_digits: "str_nat n \<noteq> [] \<and> list_all is_digit (str_nat n)"
proof (induction n rule: str_nat.induct)
  case (1 n)
  show ?case
  proof (cases "n < 10")
    case True
    then show ?thesis by (simp add: str_nat.simps [of n] digit_char_digit)
  next
    case False
    have "n mod 10 < 10" by simp
    then have "is_digit (digit_char (n mod 10))" by (rule digit_char_digit)
    then show ?thesis using False 1 by (simp add: str_nat.simps [of n])
  qed
qed

lemma digits_value_snoc:
  "list_all is_digit xs \<Longrightarrow> is_digit c \<Longrightarrow>
   digits_value acc (xs @ [c]) =
     map_option (\<lambda>v. 10 * v + (of_char c - 48)) (digits_value acc xs)"
  by (induction xs arbitrary: acc) auto

lemma digits_value_str_nat: "digits_value 0 (str_nat n) = Some n"
proof (induction n rule: str_nat.induct)
  case (1 n)
  show ?case
  proof (cases "n < 10")
    case True
    then show ?thesis by (simp add: str_nat.simps [of n] digit_char_digit)
  next
    case False
    have m: "n mod 10 < 10" by simp
    have "digits_value 0 (str_nat (n div 10) @ [digit_char (n mod 10)]) =
          map_option (\<lambda>v. 10 * v + (of_char (digit_char (n mod 10)) - 48))
            (digits_value 0 (str_nat (n div 10)))"
      using str_nat_digits [of "n div 10"] digit_char_digit(1) [OF m]
      by (simp add: digits_value_snoc)
    then show ?thesis
      using False 1 by (simp add: str_nat.simps [of n] digit_char_digit(2) [OF m])
  qed
qed

lemma py_nat_str_nat: "py_nat (str_nat n) = Some n"
proof -
  obtain c cs where c: "str_nat n = c # cs"
    using str_nat_digits [of n] by (cases "str_nat n") auto
  then have "is_digit c" using str_nat_digits [of n] by simp
  then show ?thesis
    using digits_value_str_nat [of n] by (simp add: py_nat_def c)
qed

lemma strip_plain:
  "s \<noteq> [] \<Longrightarrow> \<not> is_space (hd s) \<Longrightarrow> \<not> is_space (last s) \<Longrightarrow> strip s = s"
proof -
  assume a: "s \<noteq> []" "\<not> is_space (hd s)" "\<not> is_space (last s)"
  have 1: "dropWhile is_space s = s"
    using a by (simp add: dropWhile_eq_self_iff)
  have 2: "dropWhile is_space (rev s) = rev s"
    using a by (simp add: dropWhile_eq_self_iff hd_rev)
  show ?thesis by (simp add: strip_def 1 2)
qed

lemma str_nat_ends:
  "is_digit (hd (str_nat n))" "is_digit (last (str_nat n))" "CHR ''_'' \<notin> set (str_nat n)"
  using str_nat_digits [of n] is_digit_plain
  by (auto simp: list_all_iff)

lemma py_int_str_int: "py_int (str_int i) = Some i"
proof (cases "i < 0")
  case True
  let ?s = "CHR ''-'' # str_nat (nat (- i))"
  have "strip ?s = ?s"
    using str_nat_digits [of "nat (- i)"] str_nat_ends(2) [of "nat (- i)"] is_digit_plain
    by (intro strip_plain) (auto simp: is_space_def)
  then show ?thesis
    using True by (simp add: py_int_def str_int_def py_nat_str_nat)
next
  case False
  obtain c cs where c: "str_nat (nat i) = c # cs"
    using str_nat_digits [of "nat i"] by (cases "str_nat (nat i)") auto
  have d: "is_digit c" using str_nat_ends(1) [of "nat i"] c by simp
  have "strip (str_nat (nat i)) = str_nat (nat i)"
    using str_nat_digits [of "nat i"] str_nat_ends(1,2) [of "nat i"] is_digit_plain
    by (intro strip_plain) auto
  then show ?thesis
    using False d is_digit_plain [OF d] py_nat_str_nat [of "nat i"]
    by (simp add: py_int_def str_int_def c)
qed

lemma str_int_no_underscore: "CHR ''_'' \<notin> set (str_int i)"
  using str_nat_ends(3) by (simp add: str_int_def)

text \<open>The data of a skip button parse as a skip of the question of that button.\<close>

lemma parse_callback_skip:
  "parse_callback (''skip_'' @ str_int i) = Inr (i, ''skipped'')"
  using split_on_absent [OF str_int_no_underscore [of i]]
  by (simp add: parse_callback_def startswith_def py_int_str_int)

text \<open>The data of an option button parse as that option and the question of the button.\<close>

lemma parse_callback_answer:
  "parse_callback (''answer_'' @ option @ ''_'' @ str_int i) = Inr (i, option)"
proof -
  have s: "split_on CHR ''_'' (option @ CHR ''_'' # str_int i) =
           split_on CHR ''_'' option @ [str_int i]"
    by (simp add: split_on_append split_on_absent [OF str_int_no_underscore])
  obtain p ps where p: "split_on CHR ''_'' option = p # ps"
    using split_on_nonempty [of "CHR ''_''" option] by (cases "split_on CHR ''_'' option") auto
  have j: "join ''_'' (p # ps) = option"
    using join_split_on [of "CHR ''_''" option] by (simp add: p)
  have "split_on CHR ''_'' (''answer_'' @ option @ ''_'' @ str_int i) =
        ''answer'' # p # ps @ [str_int i]"
    using s p by simp
  then show ?thesis
    using j by (simp add: parse_callback_def startswith_def py_int_str_int)
qed

section \<open>Keyboards\<close>

lemma find_None_text:
  "q_question_text question \<notin> set (map b_question_text bank) \<Longrightarrow>
   find (\<lambda>q. b_question_text q = q_question_text question) bank = None"
  by (force simp: find_None_iff)

lemma buttons_depend_on_id:
  assumes "q_id question' = q_id question"
  shows "yes_button question' = yes_button question"
    and "no_button question' = no_button question"
    and "skip_button question' = skip_button question"
    and "option_button question' = option_button question"
  using assms
  by (simp_all add: yes_button_def no_button_def skip_button_def option_button_def fun_eq_iff)

lemma concat_option_rows: "concat (option_rows row bs) = row @ bs"
  by (induction bs arbitrary: row) (simp_all add: Let_def)

lemma option_rows_pair: "option_rows [] (a # b # bs) = [a, b] # option_rows [] bs"
  by (simp add: Let_def)

lemma length_option_rows:
  "map length (option_rows [] bs) =
     replicate (length bs div 2) 2 @ (if odd (length bs) then [1] else [])"
  by (induction bs rule: induct_list012) (simp_all add: Let_def)

text \<open>
  C10. The keyboard of every question is not empty and its last row is the single Skip
  button, whose data \<open>skip_<id>\<close> parse as a skip of that very question: every question
  can be skipped. When no bank entry has the question's text, or the entry has no
  options, the keyboard is the row of the two generic buttons Yes and No, with data
  \<open>answer_yes_<id>\<close> and \<open>answer_no_<id>\<close>, followed by the Skip row. Otherwise the
  rows before the Skip row hold one button for every option of the first bank entry
  whose text equals the question's text, in order, labelled with the option and with
  data \<open>answer_<option>_<id>\<close>, two to a row and a last row of one when their number
  is odd. Two questions with the same text and id get the same keyboard, whatever their
  other columns.
\<close>

theorem get_question_options_keyboard:
  "get_question_options bank question \<noteq> [] \<and>
   last (get_question_options bank question) =
     [\<lparr>btn_text = ''Skip '' @ [CHR 0xE2, CHR 0x8F, CHR 0xAD, CHR 0xEF, CHR 0xB8, CHR 0x8F],
       btn_callback_data = ''skip_'' @ str_int (q_id question)\<rparr>] \<and>
   parse_callback (''skip_'' @ str_int (q_id question)) = Inr (q_id question, ''skipped'') \<and>
   (q_question_text question \<notin> set (map b_question_text bank) \<or>
    (\<exists>entry. find (\<lambda>e. b_question_text e = q_question_text question) bank = Some entry \<and>
             b_options entry = None) \<longrightarrow>
      get_question_options bank question =
        [[\<lparr>btn_text = ''Yes '' @ [CHR 0xE2, CHR 0x9C, CHR 0x85],
           btn_callback_data = ''answer_yes_'' @ str_int (q_id question)\<rparr>,
          \<lparr>btn_text = ''No '' @ [CHR 0xE2, CHR 0x9D, CHR 0x8C],
           btn_callback_data = ''answer_no_'' @ str_int (q_id question)\<rparr>],
         [\<lparr>btn_text = ''Skip '' @ [CHR 0xE2, CHR 0x8F, CHR 0xAD, CHR 0xEF, CHR 0xB8, CHR 0x8F],
           btn_callback_data = ''skip_'' @ str_int (q_id question)\<rparr>]]) \<and>
   (find (\<lambda>e. b_question_text e = q_question_text question) bank = Some entry \<and>
    b_options entry = Some opts \<longrightarrow>
      concat (butlast (get_question_options bank question)) =
        map (\<lambda>option. \<lparr>btn_text = option,
                         btn_callback_data =
                           ''answer_'' @ option @ ''_'' @ str_int (q_id question)\<rparr>) opts \<and>
      map length (butlast (get_question_options bank question)) =
        replicate (length opts div 2) 2 @ (if odd (length opts) then [1] else [])) \<and>
   (q_question_text question' = q_question_text question \<and> q_id question' = q_id question \<longrightarrow>
      get_question_options bank question' = get_question_options bank question)"
proof (intro conjI impI)
  show "get_question_options bank question \<noteq> []"
    by (simp add: get_question_options_def Let_def)
  show "last (get_question_options bank question) =
     [\<lparr>btn_text = ''Skip '' @ [CHR 0xE2, CHR 0x8F, CHR 0xAD, CHR 0xEF, CHR 0xB8, CHR 0x8F],
       btn_callback_data = ''skip_'' @ str_int (q_id question)\<rparr>]"
    by (simp add: get_question_options_def Let_def skip_button_def InlineKeyboardButton_def)
  show "parse_callback (''skip_'' @ str_int (q_id question)) = Inr (q_id question, ''skipped'')"
    by (rule parse_callback_skip)
  show "get_question_options bank question =
        [[\<lparr>btn_text = ''Yes '' @ [CHR 0xE2, CHR 0x9C, CHR 0x85],
           btn_callback_data = ''answer_yes_'' @ str_int (q_id question)\<rparr>,
          \<lparr>btn_text = ''No '' @ [CHR 0xE2, CHR 0x9D, CHR 0x8C],
           btn_callback_data = ''answer_no_'' @ str_int (q_id question)\<rparr>],
         [\<lparr>btn_text = ''Skip '' @ [CHR 0xE2, CHR 0x8F, CHR 0xAD, CHR 0xEF, CHR 0xB8, CHR 0x8F],
           btn_callback_data = ''skip_'' @ str_int (q_id question)\<rparr>]]"
    if h: "q_question_text question \<notin> set (map b_question_text bank) \<or>
       (\<exists>entry. find (\<lambda>e. b_question_text e = q_question_text question) bank = Some entry \<and>
             b_options entry = None)"
  proof -
    have "find (\<lambda>e. b_question_text e = q_question_text question) bank = None \<or>
       (\<exists>entry. find (\<lambda>e. b_question_text e = q_question_text question) bank = Some entry \<and>
             b_options entry = None)"
      using h find_None_text [of question bank] by blast
    then show ?thesis
      by (auto simp: get_question_options_def yes_button_def no_button_def skip_button_def
            InlineKeyboardButton_def)
  qed
  assume e: "find (\<lambda>e. b_question_text e = q_question_text question) bank = Some entry \<and>
    b_options entry = Some opts"
  have b: "butlast (get_question_options bank question) =
           option_rows [] (map (option_button question) opts)"
    using e by (simp add: get_question_options_def butlast_append)
  show "concat (butlast (get_question_options bank question)) =
        map (\<lambda>option. \<lparr>btn_text = option,
                         btn_callback_data =
                           ''answer_'' @ option @ ''_'' @ str_int (q_id question)\<rparr>) opts"
    by (simp add: b concat_option_rows option_button_def InlineKeyboardButton_def)
  show "map length (butlast (get_question_options bank question)) =
        replicate (length opts div 2) 2 @ (if odd (length opts) then [1] else [])"
    using length_option_rows [of "map (option_button question) opts"] by (simp add: b)
next
  show "get_question_options bank question' = get_question_options bank question"
    if "q_question_text question' = q_question_text question \<and> q_id question' = q_id question"
    using that buttons_depend_on_id [of question' question]
    by (simp add: get_question_options_def Let_def split: option.splits)
qed


lemma str_int_examples: "str_int 1 = ''1''" "str_int 17 = ''17''"
  by (simp_all add: str_int_def str_nat.simps digit_char_def)

theorem get_question_options_keyboard_witness:
  "get_question_options QUESTION_BANK q_unlisted =
     [[\<lparr>btn_text = ''Yes '' @ [CHR 0xE2, CHR 0x9C, CHR 0x85],
        btn_callback_data = ''answer_yes_17''\<rparr>,
       \<lparr>btn_text = ''No '' @ [CHR 0xE2, CHR 0x9D, CHR 0x8C],
        btn_callback_data = ''answer_no_17''\<rparr>],
      [\<lparr>btn_text = ''Skip '' @ [CHR 0xE2, CHR 0x8F, CHR 0xAD, CHR 0xEF, CHR 0xB8, CHR 0x8F],
        btn_callback_data = ''skip_17''\<rparr>]] \<and>
   parse_callback ''skip_17'' = Inr (17, ''skipped'') \<and>
   concat (butlast (get_question_options QUESTION_BANK q_mood)) =
     [\<lparr>btn_text = ''Great '' @ [CHR 0xF0, CHR 0x9F, CHR 0x98, CHR 0x8A],
       btn_callback_data = ''answer_Great '' @ [CHR 0xF0, CHR 0x9F, CHR 0x98, CHR 0x8A] @ ''_1''\<rparr>,
      \<lparr>btn_text = ''Good '' @ [CHR 0xF0, CHR 0x9F, CHR 0x99, CHR 0x82],
       btn_callback_data = ''answer_Good '' @ [CHR 0xF0, CHR 0x9F, CHR 0x99, CHR 0x82] @ ''_1''\<rparr>,
      \<lparr>btn_text = ''Okay '' @ [CHR 0xF0, CHR 0x9F, CHR 0x98, CHR 0x90],
       btn_callback_data = ''answer_Okay '' @ [CHR 0xF0, CHR 0x9F, CHR 0x98, CHR 0x90] @ ''_1''\<rparr>,
      \<lparr>btn_text = ''Not great '' @ [CHR 0xF0, CHR 0x9F, CHR 0x98, CHR 0x94],
       btn_callback_data =
         ''answer_Not great '' @ [CHR 0xF0, CHR 0x9F, CHR 0x98, CHR 0x94] @ ''_1''\<rparr>] \<and>
   map length (butlast (get_question_options QUESTION_BANK q_mood)) = [2, 2] \<and>
   last (get_question_options QUESTION_BANK q_mood) =
     [\<lparr>btn_text = ''Skip '' @ [CHR 0xE2, CHR 0x8F, CHR 0xAD, CHR 0xEF, CHR 0xB8, CHR 0x8F],
       btn_callback_data = ''skip_1''\<rparr>]"
proof -
  note t = get_question_options_keyboard
  have a: "q_question_text q_unlisted \<notin> set (map b_question_text QUESTION_BANK)"
    by (simp add: q_unlisted_def QUESTION_BANK_def)
  have i: "q_id q_unlisted = 17" "q_id q_mood = 1"
    by (simp_all add: q_unlisted_def q_mood_def)
  have b: "find (\<lambda>e. b_question_text e = q_question_text q_mood) QUESTION_BANK =
             Some (hd QUESTION_BANK)"
    by (simp add: q_mood_def QUESTION_BANK_def)
  have c: "b_options (hd QUESTION_BANK) =
             Some [''Great '' @ [CHR 0xF0, CHR 0x9F, CHR 0x98, CHR 0x8A],
                   ''Good '' @ [CHR 0xF0, CHR 0x9F, CHR 0x99, CHR 0x82],
                   ''Okay '' @ [CHR 0xF0, CHR 0x9F, CHR 0x98, CHR 0x90],
                   ''Not great '' @ [CHR 0xF0, CHR 0x9F, CHR 0x98, CHR 0x94]]"
    by (simp add: QUESTION_BANK_def)
  have u: "get_question_options QUESTION_BANK q_unlisted =
     [[\<lparr>btn_text = ''Yes '' @ [CHR 0xE2, CHR 0x9C, CHR 0x85],
        btn_callback_data = ''answer_yes_'' @ str_int (q_id q_unlisted)\<rparr>,
       \<lparr>btn_text = ''No '' @ [CHR 0xE2, CHR 0x9D, CHR 0x8C],
        btn_callback_data = ''answer_no_'' @ str_int (q_id q_unlisted)\<rparr>],
      [\<lparr>btn_text = ''Skip '' @ [CHR 0xE2, CHR 0x8F, CHR 0xAD, CHR 0xEF, CHR 0xB8, CHR 0x8F],
        btn_callback_data = ''skip_'' @ str_int (q_id q_unlisted)\<rparr>]] \<and>
     parse_callback (''skip_'' @ str_int (q_id q_unlisted)) = Inr (q_id q_unlisted, ''skipped'')"
    using t [of QUESTION_BANK q_unlisted] a by blast
  have m: "concat (butlast (get_question_options QUESTION_BANK q_mood)) =
        map (\<lambda>option. \<lparr>btn_text = option,
                         btn_callback_data =
                           ''answer_'' @ option @ ''_'' @ str_int (q_id q_mood)\<rparr>)
          [''Great '' @ [CHR 0xF0, CHR 0x9F, CHR 0x98, CHR 0x8A],
           ''Good '' @ [CHR 0xF0, CHR 0x9F, CHR 0x99, CHR 0x82],
           ''Okay '' @ [CHR 0xF0, CHR 0x9F, CHR 0x98, CHR 0x90],
           ''Not great '' @ [CHR 0xF0, CHR 0x9F, CHR 0x98, CHR 0x94]] \<and>
      map length (butlast (get_question_options QUESTION_BANK q_mood)) =
        replicate (length [''Great '' @ [CHR 0xF0, CHR 0x9F, CHR 0x98, CHR 0x8A],
           ''Good '' @ [CHR 0xF0, CHR 0x9F, CHR 0x99, CHR 0x82],
           ''Okay '' @ [CHR 0xF0, CHR 0x9F, CHR 0x98, CHR 0x90],
           ''Not great '' @ [CHR 0xF0, CHR 0x9F, CHR 0x98, CHR 0x94]] div 2) 2 @
        (if odd (length [''Great '' @ [CHR 0xF0, CHR 0x9F, CHR 0x98, CHR 0x8A],
           ''Good '' @ [CHR 0xF0, CHR 0x9F, CHR 0x99, CHR 0x82],
           ''Okay '' @ [CHR 0xF0, CHR 0x9F, CHR 0x98, CHR 0x90],
           ''Not great '' @ [CHR 0xF0, CHR 0x9F, CHR 0x98, CHR 0x94]]) then [1] else [])"
    using t [of QUESTION_BANK q_mood "hd QUESTION_BANK"] b c by blast
  have l: "last (get_question_options QUESTION_BANK q_mood) =
     [\<lparr>btn_text = ''Skip '' @ [CHR 0xE2, CHR 0x8F, CHR 0xAD, CHR 0xEF, CHR 0xB8, CHR 0x8F],
       btn_callback_data = ''skip_'' @ str_int (q_id q_mood)\<rparr>]"
    using t [of QUESTION_BANK q_mood] by blast
  have r: "replicate (4 div 2) (2::nat) = [2, 2]" by code_simp
  show ?thesis
    using u m l by (simp add: i str_int_examples r)
qed

section \<open>The streak\<close>

text \<open>
  The first row of the query is a text, which equals neither \<open>today\<close> nor the day
  before: the loop ends at once, for every user and every set of responses.
\<close>

lemma get_user_streak_zero: "get_user_streak db user_id now = Inr 0"
proof -
  obtain ds where d: "response_dates db user_id = map (\<lambda>d. DateText (iso_date d)) ds"
    by (simp add: response_dates_def)
  show ?thesis
    by (cases ds) (simp_all add: get_user_streak_def d)
qed

text \<open>
  On rows that are dates (a database with a DATE type) the loop counts, and it accepts a
  date two days before the previous one: one day without a response does not end it.
\<close>

lemma streak_loop_skips_one_day:
  "streak_loop 0 10 [DateValue 10, DateValue 9, DateValue 8, DateValue 6] = Inr 4"
  by simp

lemma iso_date_examples:
  "iso_date 19998 = ''2024-10-02''" "iso_date 19999 = ''2024-10-03''"
  "iso_date 20000 = ''2024-10-04''"
  by code_simp+

lemma response_dates_db_recent_days:
  "response_dates db_recent_days 1 =
     [DateText ''2024-10-04'', DateText ''2024-10-03'', DateText ''2024-10-02'']"
proof -
  have "rev (sort (remdups (map (\<lambda>r. date_of (r_responded_at r))
          (filter (\<lambda>r. r_user_id r = 1) (responses db_recent_days))))) = [20000, 19999, 19998]"
    by (simp add: db_recent_days_def db_start_def response_on_def date_of_def)
  then show ?thesis by (simp add: response_dates_def iso_date_examples)
qed

text \<open>
  C9 fails on the code. Alice has responses on the three consecutive days 2024-10-02,
  2024-10-03 and 2024-10-04, and \<open>now\<close> is on 2024-10-04: the streak should be 3.
  The rows of the query are the texts of these dates, none of which equals a date, and
  \<open>get_user_streak\<close> returns 0. The loop on date values would return 3.
\<close>

theorem get_user_streak_returns_zero:
  "response_dates db_recent_days 1 =
     [DateText ''2024-10-04'', DateText ''2024-10-03'', DateText ''2024-10-02''] \<and>
   date_of (20000 * 86400 + 7200) = 20000 \<and>
   get_user_streak db_recent_days 1 (20000 * 86400 + 7200) = Inr 0 \<and>
   streak_loop 0 20000 [DateValue 20000, DateValue 19999, DateValue 19998] = Inr 3"
  by (simp add: response_dates_db_recent_days get_user_streak_zero date_of_def)

section \<open>Rows replaced by key\<close>

lemma find_map_replace:
  "find P xs = Some c \<Longrightarrow> P c' \<Longrightarrow>
   find P (map (\<lambda>x. if key x = key c then c' else x) xs) = Some c'"
proof (induction xs)
  case Nil
  then show ?case by simp
next
  case (Cons x xs)
  then show ?case by (cases "P x") auto
qed

section \<open>The schedule table\<close>

lemma new_schedules_pairs:
  "map (\<lambda>s. (s_time s, s_is_enabled s)) (new_schedules uid i now ts) = map (\<lambda>t. (t, True)) ts"
  by (induction ts arbitrary: i) auto

lemma new_schedules_owner:
  "filter (\<lambda>s. s_user_id s = uid) (new_schedules uid i now ts) = new_schedules uid i now ts"
  by (induction ts arbitrary: i) auto

lemma find_user_write_user:
  "find_user db tid = Some user \<Longrightarrow> u_telegram_id user' = tid \<Longrightarrow> u_id user' = u_id user \<Longrightarrow>
   find_user (write_user db user') tid = Some user'"
  using find_map_replace [of "\<lambda>u. u_telegram_id u = tid" "users db" user user' u_id]
  by (simp add: find_user_def write_user_def)

lemma find_user_telegram_id: "find_user db tid = Some user \<Longrightarrow> u_telegram_id user = tid"
  by (auto simp: find_user_def find_Some_iff)

text \<open>
  The user row after \<open>add_user_schedule\<close>: the same row, with the new time zone if a
  non-empty one was given.
\<close>

lemma find_user_add_user_schedule:
  assumes "find_user db tid = Some user"
  shows "find_user (add_user_schedule db tid ts tz now) tid = Some (case tz of None \<Rightarrow> user | Some z \<Rightarrow> if z = [] then user else user\<lparr>u_timezone := z\<rparr>)"
proof -
  have t: "u_telegram_id user = tid" using assms by (rule find_user_telegram_id)
  show ?thesis
  proof (cases "tz = None \<or> tz = Some []")
    case True
    then show ?thesis using assms
      by (auto simp: add_user_schedule_def find_user_def)
  next
    case False
    then obtain z where z: "tz = Some z" "z \<noteq> []" by auto
    have "find_user (write_user db (user\<lparr>u_timezone := z\<rparr>)) tid = Some (user\<lparr>u_timezone := z\<rparr>)"
      using assms t by (simp add: find_user_write_user)
    then show ?thesis using assms z
      by (simp add: add_user_schedule_def find_user_def Let_def)
  qed
qed

lemma schedules_add_user_schedule:
  assumes "find_user db tid = Some user"
  shows "schedules (add_user_schedule db tid ts tz now) =
         filter (\<lambda>s. s_user_id s \<noteq> u_id user) (schedules db) @
         new_schedules (u_id user) (next_id (map s_id (schedules db))) now ts"
  using assms
  by (auto simp: add_user_schedule_def write_user_def Let_def split: option.splits)

lemma get_user_schedules_add_user_schedule:
  assumes "find_user db tid = Some user"
  shows "get_user_schedules (add_user_schedule db tid ts tz now) tid = map (\<lambda>t. (t, True)) ts"
proof -
  have i: "u_id (case tz of None \<Rightarrow> user | Some z \<Rightarrow> if z = [] then user else user\<lparr>u_timezone := z\<rparr>) = u_id user"
    by (simp split: option.splits)
  have "user_schedules (add_user_schedule db tid ts tz now) (case tz of None \<Rightarrow> user | Some z \<Rightarrow> if z = [] then user else user\<lparr>u_timezone := z\<rparr>) =
        new_schedules (u_id user) (next_id (map s_id (schedules db))) now ts"
    by (simp add: user_schedules_def schedules_add_user_schedule [OF assms] i new_schedules_owner)
  then show ?thesis
    by (simp add: get_user_schedules_def find_user_add_user_schedule [OF assms] new_schedules_pairs)
qed


lemma timezone_add_user_schedule:
  assumes "find_user db tid = Some user"
  shows "map_option u_timezone (find_user (add_user_schedule db tid ts tz now) tid) =
         Some (case tz of None \<Rightarrow> u_timezone user
               | Some z \<Rightarrow> if z = [] then u_timezone user else z)"
  by (simp add: find_user_add_user_schedule [OF assms] split: option.splits)

lemma add_user_schedule_unknown_user:
  "find_user db tid = None \<Longrightarrow> add_user_schedule db tid ts tz now = db"
  by (simp add: add_user_schedule_def)

lemma find_user_db_start: "find_user db_start 7 = Some alice"
  by (simp add: find_user_def db_start_def alice_def)

text \<open>
  C6, as the code has it. For a registered user \<open>add_user_schedule\<close> replaces the
  user's schedule rows by one enabled row for every element of the given list, in
  order and without removing repetitions: the listing that follows is the given list,
  each time enabled. It has no duplicate when the given list has none, also when the
  call follows an earlier call with overlapping times. The time zone becomes the given
  one when a non-empty one is given and stays otherwise.
\<close>

theorem add_user_schedule_replaces_schedules:
  "find_user db tid = Some user \<Longrightarrow>
   get_user_schedules (add_user_schedule db tid ts tz now) tid = map (\<lambda>t. (t, True)) ts \<and>
   (distinct ts \<longrightarrow>
      distinct (map fst (get_user_schedules (add_user_schedule db tid ts tz now) tid))) \<and>
   get_user_schedules
     (add_user_schedule (add_user_schedule db tid ts0 tz0 now0) tid ts tz now) tid =
     map (\<lambda>t. (t, True)) ts \<and>
   map_option u_timezone (find_user (add_user_schedule db tid ts tz now) tid) =
     Some (case tz of None \<Rightarrow> u_timezone user
           | Some z \<Rightarrow> if z = [] then u_timezone user else z)"
proof (intro conjI impI)
  assume u: "find_user db tid = Some user"
  show l: "get_user_schedules (add_user_schedule db tid ts tz now) tid = map (\<lambda>t. (t, True)) ts"
    by (rule get_user_schedules_add_user_schedule [OF u])
  show "distinct (map fst (get_user_schedules (add_user_schedule db tid ts tz now) tid))"
    if "distinct ts"
    using that by (simp add: l comp_def)
  show "get_user_schedules
     (add_user_schedule (add_user_schedule db tid ts0 tz0 now0) tid ts tz now) tid =
     map (\<lambda>t. (t, True)) ts"
    by (rule get_user_schedules_add_user_schedule [OF find_user_add_user_schedule [OF u]])
  show "map_option u_timezone (find_user (add_user_schedule db tid ts tz now) tid) =
     Some (case tz of None \<Rightarrow> u_timezone user
           | Some z \<Rightarrow> if z = [] then u_timezone user else z)"
    by (rule timezone_add_user_schedule [OF u])
qed

theorem add_user_schedule_replaces_schedules_witness:
  "get_user_schedules
     (add_user_schedule (add_user_schedule db_start 7 [''09:00'', ''14:00''] None 40) 7
        [''09:00'', ''20:00''] (Some ''UTC'') 50) 7 =
     [(''09:00'', True), (''20:00'', True)] \<and>
   get_user_schedules (add_user_schedule db_start 7 [''09:00'', ''20:00''] (Some ''UTC'') 50) 7 =
     [(''09:00'', True), (''20:00'', True)]"
  using add_user_schedule_replaces_schedules
          [OF find_user_db_start, of "[''09:00'', ''20:00'']" "Some ''UTC''" 50
             "[''09:00'', ''14:00'']" None 40]
  by simp

text \<open>
  The claim C6 as stated fails: a time given twice in the list is stored twice and
  listed twice.
\<close>

theorem add_user_schedule_keeps_repeated_time:
  "get_user_schedules (add_user_schedule db_start 7 [''09:00'', ''09:00''] (Some ''UTC'') 50) 7 =
     [(''09:00'', True), (''09:00'', True)] \<and>
   \<not> distinct (map fst (get_user_schedules
        (add_user_schedule db_start 7 [''09:00'', ''09:00''] (Some ''UTC'') 50) 7))"
  by (simp add: get_user_schedules_add_user_schedule [OF find_user_db_start])

section \<open>Registering jobs\<close>

lemma add_job_rejects:
  assumes "parse_time t = None \<or> \<not> known_tz z \<or>
           (\<exists>h m. parse_time t = Some (h, m) \<and> \<not> cron_fields_ok h m)"
  shows "add_job known_tz js tid t z \<subseteq>\<^sub>m js"
  using assms
  by (auto simp: add_job_def map_le_def Let_def split: option.splits if_splits)

lemma parse_time_25_99: "parse_time ''25:99'' = Some (25, 99)"
  by (simp add: parse_time_def py_int_def strip_def is_space_def py_nat_def is_digit_def)

lemma parse_time_words: "parse_time ''nine'' = None"
  by (simp add: parse_time_def)


lemma new_schedules_times: "map s_time (new_schedules uid i now ts) = ts"
  by (induction ts arbitrary: i) auto

lemma new_schedules_enabled: "list_all s_is_enabled (new_schedules uid i now ts)"
  by (induction ts arbitrary: i) auto

text \<open>
  C8, as the code has it. \<open>add_user_schedule\<close> checks nothing: for a registered user
  every given time string, whatever its form, is stored as an enabled row, and a
  non-empty time zone string is stored as given; the function has no error result.
  \<open>add_job\<close> is where a malformed value is noticed: when the time string (of ASCII
  characters) is not two integers separated by a colon, or the hour or minute is out
  of range, or the zone is unknown, it registers nothing (the job table after the call
  is contained in the table before it), and the error is logged, not raised.
\<close>

theorem add_user_schedule_stores_any_string:
  "find_user db tid = Some user \<Longrightarrow>
   map s_time (filter (\<lambda>s. s_user_id s = u_id user)
                 (schedules (add_user_schedule db tid ts tz now))) = ts \<and>
   list_all s_is_enabled (filter (\<lambda>s. s_user_id s = u_id user)
                 (schedules (add_user_schedule db tid ts tz now))) \<and>
   (tz = Some z \<and> z \<noteq> [] \<longrightarrow>
      map_option u_timezone (find_user (add_user_schedule db tid ts tz now) tid) = Some z) \<and>
   (is_ascii t \<and>
    (parse_time t = None \<or> \<not> known_tz zone \<or>
     (\<exists>h m. parse_time t = Some (h, m) \<and> \<not> cron_fields_ok h m)) \<longrightarrow>
      add_job known_tz js tid' t zone \<subseteq>\<^sub>m js)"
proof (intro conjI impI)
  assume u: "find_user db tid = Some user"
  have f: "filter (\<lambda>s. s_user_id s = u_id user) (schedules (add_user_schedule db tid ts tz now)) =
           new_schedules (u_id user) (next_id (map s_id (schedules db))) now ts"
    by (simp add: schedules_add_user_schedule [OF u] new_schedules_owner)
  show "map s_time (filter (\<lambda>s. s_user_id s = u_id user)
                 (schedules (add_user_schedule db tid ts tz now))) = ts"
    by (simp only: f new_schedules_times)
  show "list_all s_is_enabled (filter (\<lambda>s. s_user_id s = u_id user)
                 (schedules (add_user_schedule db tid ts tz now)))"
    by (simp only: f new_schedules_enabled)
  show "map_option u_timezone (find_user (add_user_schedule db tid ts tz now) tid) = Some z"
    if "tz = Some z \<and> z \<noteq> []"
    using that by (simp add: timezone_add_user_schedule [OF u])
  show "add_job known_tz js tid' t zone \<subseteq>\<^sub>m js"
    if "is_ascii t \<and>
        (parse_time t = None \<or> \<not> known_tz zone \<or>
         (\<exists>h m. parse_time t = Some (h, m) \<and> \<not> cron_fields_ok h m))"
    using that add_job_rejects [of t known_tz zone js tid'] by blast
qed

theorem add_user_schedule_stores_any_string_witness:
  "map s_time (filter (\<lambda>s. s_user_id s = u_id alice)
      (schedules (add_user_schedule db_start 7 [''25:99'', ''nine''] (Some ''Mars/Phobos'') 50))) =
     [''25:99'', ''nine''] \<and>
   map_option u_timezone
     (find_user (add_user_schedule db_start 7 [''25:99'', ''nine''] (Some ''Mars/Phobos'') 50) 7) =
     Some ''Mars/Phobos'' \<and>
   add_job (\<lambda>z. z = ''UTC'') Map.empty 7 ''25:99'' ''UTC'' \<subseteq>\<^sub>m Map.empty"
proof -
  have p: "parse_time ''25:99'' = Some (25, 99) \<and> \<not> cron_fields_ok 25 99"
    by (simp add: parse_time_25_99 cron_fields_ok_def)
  have q: "is_ascii ''25:99''" by (simp add: is_ascii_def)
  show ?thesis
    using add_user_schedule_stores_any_string
            [OF find_user_db_start, of "[''25:99'', ''nine'']" "Some ''Mars/Phobos''" 50
               "''Mars/Phobos''" "''25:99''" "\<lambda>z. z = ''UTC''" "''UTC''" Map.empty 7] p q
    by simp
qed

text \<open>
  The claim C8 as stated fails: the call with a malformed time and an unknown zone
  returns normally and has stored both.
\<close>

theorem add_user_schedule_persists_malformed_time:
  "schedules (add_user_schedule db_start 7 [''25:99''] (Some ''Mars/Phobos'') 50) =
     [\<lparr>s_id = 1, s_user_id = 1, s_time = ''25:99'', s_is_enabled = True, s_created_at = 50\<rparr>] \<and>
   map_option u_timezone
     (find_user (add_user_schedule db_start 7 [''25:99''] (Some ''Mars/Phobos'') 50) 7) =
     Some ''Mars/Phobos'' \<and>
   parse_time ''25:99'' = Some (25, 99) \<and> \<not> cron_fields_ok 25 99"
proof -
  have s: "schedules (add_user_schedule db_start 7 [''25:99''] (Some ''Mars/Phobos'') 50) =
     filter (\<lambda>s. s_user_id s \<noteq> u_id alice) (schedules db_start) @
     new_schedules (u_id alice) (next_id (map s_id (schedules db_start))) 50 [''25:99'']"
    by (rule schedules_add_user_schedule [OF find_user_db_start])
  have e: "schedules db_start = []" "u_id alice = 1"
    by (simp_all add: db_start_def alice_def)
  have a: "schedules (add_user_schedule db_start 7 [''25:99''] (Some ''Mars/Phobos'') 50) =
     [\<lparr>s_id = 1, s_user_id = 1, s_time = ''25:99'', s_is_enabled = True, s_created_at = 50\<rparr>]"
    by (simp add: s e next_id_def)
  have b: "map_option u_timezone
     (find_user (add_user_schedule db_start 7 [''25:99''] (Some ''Mars/Phobos'') 50) 7) =
     Some ''Mars/Phobos''"
    by (simp add: timezone_add_user_schedule [OF find_user_db_start])
  have c: "\<not> cron_fields_ok 25 99" by (simp add: cron_fields_ok_def)
  show ?thesis using a b c parse_time_25_99 by blast
qed

section \<open>Answering a question\<close>

lemma find_state_telegram_id: "find_state db tid = Some cs \<Longrightarrow> cs_telegram_id cs = tid"
  by (auto simp: find_state_def find_Some_iff)

lemma find_state_member: "find_state db tid = Some cs \<Longrightarrow> cs \<in> set (conversation_states db)"
  by (auto simp: find_state_def find_Some_iff)

lemma find_state_write_state:
  "find_state db tid = Some cs \<Longrightarrow> cs_telegram_id cs' = tid \<Longrightarrow> cs_id cs' = cs_id cs \<Longrightarrow>
   find_state (write_state db cs') tid = Some cs'"
  using find_map_replace [of "\<lambda>c. cs_telegram_id c = tid" "conversation_states db" cs cs' cs_id]
  by (simp add: find_state_def write_state_def)

lemma find_state_responses [simp]:
  "find_state (db\<lparr>responses := rs\<rparr>) tid = find_state db tid"
  by (simp add: find_state_def)

lemma get_next_question_responses [simp]:
  "get_next_question (db\<lparr>responses := rs\<rparr>) cur = get_next_question db cur"
  by (simp add: get_next_question_def find_question_def split: option.splits)

lemma responses_write_state [simp]: "responses (write_state db cs) = responses db"
  by (simp add: write_state_def)

lemma handle_answer_callback_rejected:
  assumes "find_state db tid = None \<or>
           (\<exists>cs. find_state db tid = Some cs \<and> cs_state cs \<noteq> Some ''journaling'')"
  shows "handle_answer_callback db tid cb now = ([], Inr SessionExpired) \<or>
         (\<exists>e. handle_answer_callback db tid cb now = ([], Inl e))"
  using assms
  by (auto simp: handle_answer_callback_def split: sum.splits option.splits)

lemma handle_answer_callback_rejected_parsed:
  assumes "parse_callback cb = Inr (qid, ans)"
    and "find_state db tid = None \<or>
           (\<exists>cs. find_state db tid = Some cs \<and> cs_state cs \<noteq> Some ''journaling'')"
  shows "handle_answer_callback db tid cb now = ([], Inr SessionExpired)"
  using assms
  by (auto simp: handle_answer_callback_def split: sum.splits option.splits)

lemma handle_answer_callback_skip:
  assumes "parse_callback cb = Inr (qid, ''skipped'')"
    and "find_state db tid = Some cs" and "cs_state cs = Some ''journaling''"
    and "get_next_question db (Some qid) = Inr nxt"
  shows "handle_answer_callback db tid cb now =
     (case nxt of
        Some nq \<Rightarrow>
          ([write_state db (cs\<lparr>cs_current_question_id := Some (q_id nq), cs_updated_at := now\<rparr>)],
           Inr (ShowQuestion nq (get_question_options QUESTION_BANK nq)))
      | None \<Rightarrow>
          ([write_state db (cs\<lparr>cs_state := None, cs_current_question_id := None,
                               cs_updated_at := now\<rparr>)],
           Inr SessionComplete))"
  using assms
  by (simp add: handle_answer_callback_def save_response_def split: option.splits)

lemma handle_answer_callback_answer:
  assumes "parse_callback cb = Inr (qid, ans)" and "ans \<noteq> ''skipped''"
    and "find_state db tid = Some cs" and "cs_state cs = Some ''journaling''"
    and "find_user db tid = Some u"
    and "get_next_question db (Some qid) = Inr nxt"
    and "db1 = db\<lparr>responses := responses db @
            [\<lparr>r_id = next_id (map r_id (responses db)), r_user_id = u_id u,
              r_question_id = qid, r_answer = ans, r_responded_at = now,
              r_session_id = cs_session_id cs\<rparr>]\<rparr>"
  shows "handle_answer_callback db tid cb now =
     (case nxt of
        Some nq \<Rightarrow>
          ([db1, write_state db1 (cs\<lparr>cs_current_question_id := Some (q_id nq),
                                       cs_updated_at := now\<rparr>)],
           Inr (ShowQuestion nq (get_question_options QUESTION_BANK nq)))
      | None \<Rightarrow>
          ([db1, write_state db1 (cs\<lparr>cs_state := None, cs_current_question_id := None,
                                       cs_updated_at := now\<rparr>)],
           Inr SessionComplete))"
  using assms
  by (simp add: handle_answer_callback_def save_response_def Let_def split: option.splits)

lemma handle_answer_callback_unknown_question:
  assumes "parse_callback cb = Inr (qid, ans)" and "ans \<noteq> ''skipped''"
    and "find_state db tid = Some cs" and "cs_state cs = Some ''journaling''"
    and "find_user db tid = Some u"
    and "find_question db qid = None"
  shows "handle_answer_callback db tid cb now =
     ([db\<lparr>responses := responses db @
            [\<lparr>r_id = next_id (map r_id (responses db)), r_user_id = u_id u,
              r_question_id = qid, r_answer = ans, r_responded_at = now,
              r_session_id = cs_session_id cs\<rparr>]\<rparr>], Inl AttributeError)"
  using assms
  by (simp add: handle_answer_callback_def save_response_def Let_def get_next_question_def
        find_question_def split: option.splits)

section \<open>The concrete run\<close>

lemma parse_press_great_1: "parse_callback press_great_1 = Inr (1, great)"
  by (simp add: parse_callback_def press_great_1_def great_def startswith_def py_int_def
        strip_def is_space_def py_nat_def is_digit_def)

lemma parse_press_yes_2:
  "parse_callback press_yes_2 = Inr (2, ''Yes '' @ [CHR 0xF0, CHR 0x9F, CHR 0x98, CHR 0x8A])"
  by (simp add: parse_callback_def press_yes_2_def startswith_def py_int_def
        strip_def is_space_def py_nat_def is_digit_def)

lemma parse_skip_2: "parse_callback ''skip_2'' = Inr (2, ''skipped'')"
  by (simp add: parse_callback_def startswith_def py_int_def
        strip_def is_space_def py_nat_def is_digit_def)

lemma parse_answer_yes_99: "parse_callback ''answer_yes_99'' = Inr (99, ''yes'')"
  by (simp add: parse_callback_def startswith_def py_int_def
        strip_def is_space_def py_nat_def is_digit_def)

lemma great_not_skipped: "great \<noteq> ''skipped''"
  by (simp add: great_def)

lemma find_state_examples:
  "find_state db_start 7 = None"
  "find_state db_asked_1 7 = Some cs_asked_1"
  "find_state db_asked_2 7 =
     Some (cs_asked_1\<lparr>cs_current_question_id := Some 2, cs_updated_at := 200\<rparr>)"
  "find_state db_done 7 =
     Some (cs_asked_1\<lparr>cs_current_question_id := None, cs_state := None, cs_updated_at := 300\<rparr>)"
  by (simp_all add: find_state_def db_start_def db_asked_1_def db_asked_2_def db_done_def
        cs_asked_1_def)

lemma find_user_examples:
  "find_user db_asked_1 7 = Some alice" "find_user db_asked_2 7 = Some alice"
  "find_user db_done 7 = Some alice"
  by (simp_all add: find_user_def db_start_def db_asked_1_def db_asked_2_def db_done_def alice_def)

lemma get_next_question_examples:
  "get_next_question db_asked_1 (Some 1) = Inr (Some q_gratitude)"
  "get_next_question db_asked_2 (Some 1) = Inr (Some q_gratitude)"
  "get_next_question db_asked_2 (Some 2) = Inr None"
  "find_question db_asked_2 99 = None"
  by (simp_all add: get_next_question_def find_question_def db_start_def db_asked_1_def
        db_asked_2_def q_mood_def q_gratitude_def)

lemma first_press_great_1:
  "handle_answer_callback db_asked_1 7 press_great_1 200 =
     ([db_asked_1\<lparr>responses := [response_1]\<rparr>, db_asked_2],
      Inr (ShowQuestion q_gratitude (get_question_options QUESTION_BANK q_gratitude)))"
proof -
  have "handle_answer_callback db_asked_1 7 press_great_1 200 =
     ([db_asked_1\<lparr>responses := responses db_asked_1 @ [response_1]\<rparr>,
       write_state (db_asked_1\<lparr>responses := responses db_asked_1 @ [response_1]\<rparr>)
         (cs_asked_1\<lparr>cs_current_question_id := Some (q_id q_gratitude), cs_updated_at := 200\<rparr>)],
      Inr (ShowQuestion q_gratitude (get_question_options QUESTION_BANK q_gratitude)))"
    using handle_answer_callback_answer
            [OF parse_press_great_1 great_not_skipped find_state_examples(2) _
                find_user_examples(1) get_next_question_examples(1) refl, of 200]
    by (simp add: cs_asked_1_def response_1_def db_asked_1_def db_start_def alice_def next_id_def)
  then show ?thesis
    by (simp add: db_asked_1_def db_asked_2_def write_state_def q_gratitude_def
          cs_asked_1_def db_start_def)
qed

lemma second_press_great_1:
  "handle_answer_callback db_asked_2 7 press_great_1 300 =
     ([db_asked_2\<lparr>responses := [response_1, response_1\<lparr>r_id := 2, r_responded_at := 300\<rparr>]\<rparr>,
       db_asked_2\<lparr>responses := [response_1, response_1\<lparr>r_id := 2, r_responded_at := 300\<rparr>],
                  conversation_states :=
                    [cs_asked_1\<lparr>cs_current_question_id := Some 2, cs_updated_at := 300\<rparr>]\<rparr>],
      Inr (ShowQuestion q_gratitude (get_question_options QUESTION_BANK q_gratitude)))"
proof -
  have "handle_answer_callback db_asked_2 7 press_great_1 300 =
     ([db_asked_2\<lparr>responses := responses db_asked_2 @ [response_1\<lparr>r_id := 2, r_responded_at := 300\<rparr>]\<rparr>,
       write_state (db_asked_2\<lparr>responses := responses db_asked_2 @ [response_1\<lparr>r_id := 2, r_responded_at := 300\<rparr>]\<rparr>)
         (cs_asked_1\<lparr>cs_current_question_id := Some (q_id q_gratitude), cs_updated_at := 300\<rparr>)],
      Inr (ShowQuestion q_gratitude (get_question_options QUESTION_BANK q_gratitude)))"
    using handle_answer_callback_answer
            [OF parse_press_great_1 great_not_skipped find_state_examples(3) _
                find_user_examples(2) get_next_question_examples(2) refl, of 300]
    by (simp add: cs_asked_1_def response_1_def db_asked_2_def db_start_def alice_def next_id_def)
  then show ?thesis
    by (simp add: db_asked_2_def write_state_def q_gratitude_def
          cs_asked_1_def db_start_def)
qed

lemma skip_2_completes:
  "handle_answer_callback db_asked_2 7 ''skip_2'' 300 = ([db_done], Inr SessionComplete)"
proof -
  have "handle_answer_callback db_asked_2 7 ''skip_2'' 300 =
     ([write_state db_asked_2
         (cs_asked_1\<lparr>cs_current_question_id := Some 2, cs_updated_at := 200,
                     cs_state := None, cs_current_question_id := None, cs_updated_at := 300\<rparr>)],
      Inr SessionComplete)"
    using handle_answer_callback_skip
            [OF parse_skip_2 find_state_examples(3) _ get_next_question_examples(3), of 300]
    by (simp add: cs_asked_1_def)
  then show ?thesis
    by (simp add: db_asked_2_def db_done_def write_state_def cs_asked_1_def db_start_def)
qed

lemma unknown_question_99:
  "handle_answer_callback db_asked_2 7 ''answer_yes_99'' 300 =
     ([db_asked_2\<lparr>responses :=
          [response_1, \<lparr>r_id = 2, r_user_id = 1, r_question_id = 99, r_answer = ''yes'',
                        r_responded_at = 300, r_session_id = Some ''s1''\<rparr>]\<rparr>],
      Inl AttributeError)"
  using handle_answer_callback_unknown_question
          [OF parse_answer_yes_99 _ find_state_examples(3) _ find_user_examples(2)
              get_next_question_examples(4), of 300]
  by (simp add: cs_asked_1_def response_1_def db_asked_2_def db_start_def alice_def next_id_def)

section \<open>The guard of an answer submission\<close>

lemma persisted_simps [simp]:
  "persisted db [] = db" "persisted db [a] = a" "persisted db [a, b] = b"
  by (simp_all add: persisted_def)

lemma conversation_of_write_state:
  assumes "find_state db tid = Some cs" and "cs_telegram_id cs' = tid" and "cs_id cs' = cs_id cs"
  shows "conversation_of (write_state db cs') tid =
         Some (cs_current_question_id cs', cs_session_id cs', cs_state cs')"
  by (simp add: conversation_of_def find_state_write_state [OF assms])

text \<open>
  C1, as the code has it. When the user has no stored state, or its mode is not
  \<open>"journaling"\<close>, an answer submission commits nothing: no \<open>Response\<close> row is added
  and the database, the \<open>ConversationState\<close> included, stays what it was; when the
  callback data parse, the reply is the session-expired message. The question id of the
  submission is not compared with the stored one.
\<close>

theorem handle_answer_callback_mode_guard:
  "find_state db tid = None \<or>
   (\<exists>cs. find_state db tid = Some cs \<and> cs_state cs \<noteq> Some ''journaling'') \<Longrightarrow>
   fst (handle_answer_callback db tid cb now) = [] \<and>
   persisted db (fst (handle_answer_callback db tid cb now)) = db \<and>
   (parse_callback cb = Inr (qid, ans) \<longrightarrow>
      snd (handle_answer_callback db tid cb now) = Inr SessionExpired)"
proof -
  assume g: "find_state db tid = None \<or>
   (\<exists>cs. find_state db tid = Some cs \<and> cs_state cs \<noteq> Some ''journaling'')"
  have a: "fst (handle_answer_callback db tid cb now) = []"
    using handle_answer_callback_rejected [OF g, of cb now] by auto
  have b: "snd (handle_answer_callback db tid cb now) = Inr SessionExpired"
    if "parse_callback cb = Inr (qid, ans)"
    using handle_answer_callback_rejected_parsed [OF that g, of now] by simp
  show ?thesis using a b by simp
qed

theorem handle_answer_callback_mode_guard_witness:
  "fst (handle_answer_callback db_done 7 ''skip_2'' 400) = [] \<and>
   persisted db_done (fst (handle_answer_callback db_done 7 ''skip_2'' 400)) = db_done \<and>
   snd (handle_answer_callback db_done 7 ''skip_2'' 400) = Inr SessionExpired \<and>
   snd (handle_answer_callback db_start 7 press_great_1 400) = Inr SessionExpired"
proof -
  have g: "find_state db_done 7 = None \<or>
     (\<exists>cs. find_state db_done 7 = Some cs \<and> cs_state cs \<noteq> Some ''journaling'')"
    by (simp add: find_state_examples cs_asked_1_def)
  have h: "find_state db_start 7 = None \<or>
     (\<exists>cs. find_state db_start 7 = Some cs \<and> cs_state cs \<noteq> Some ''journaling'')"
    by (simp add: find_state_examples)
  show ?thesis
    using handle_answer_callback_mode_guard [OF g, of "''skip_2''" 400 2 "''skipped''"]
      handle_answer_callback_mode_guard [OF h, of press_great_1 400 1 great]
      parse_skip_2 parse_press_great_1
    by simp
qed

text \<open>
  The claim C1 as stated fails. In \<open>db_asked_2\<close> the stored question is 2 and the
  mode is \<open>"journaling"\<close>; this state is the result of the press on the first button of
  question 1. The same press again carries question id 1, is accepted, and adds a
  second \<open>Response\<close> row for question 1.
\<close>

theorem handle_answer_callback_accepts_stale_question:
  "conversation_of db_asked_2 7 = Some (Some 2, Some ''s1'', Some ''journaling'') \<and>
   parse_callback press_great_1 = Inr (1, great) \<and>
   persisted db_asked_1 (fst (handle_answer_callback db_asked_1 7 press_great_1 200)) = db_asked_2 \<and>
   snd (handle_answer_callback db_asked_2 7 press_great_1 300) =
     Inr (ShowQuestion q_gratitude (get_question_options QUESTION_BANK q_gratitude)) \<and>
   responses (persisted db_asked_2 (fst (handle_answer_callback db_asked_2 7 press_great_1 300))) =
     [response_1, response_1\<lparr>r_id := 2, r_responded_at := 300\<rparr>]"
  by (simp add: first_press_great_1 second_press_great_1 parse_press_great_1
        conversation_of_def find_state_examples cs_asked_1_def)

section \<open>The next question\<close>

lemma first_by_order_None: "first_by_order qs = None \<longleftrightarrow> qs = []"
  by (induction qs) (auto split: option.splits)

lemma first_by_order_least:
  "first_by_order qs = Some q \<Longrightarrow> q \<in> set qs \<and> (\<forall>r\<in>set qs. q_order q \<le> q_order r)"
proof (induction qs arbitrary: q)
  case Nil
  then show ?case by simp
next
  case (Cons x xs)
  show ?case
  proof (cases "first_by_order xs")
    case None
    then have "xs = []" by (simp add: first_by_order_None)
    then show ?thesis using Cons.prems by simp
  next
    case (Some m)
    have m: "m \<in> set xs \<and> (\<forall>r\<in>set xs. q_order m \<le> q_order r)"
      by (rule Cons.IH [OF Some])
    show ?thesis
    proof (cases "q_order x \<le> q_order m")
      case True
      then have "q = x" using Cons.prems Some by simp
      then show ?thesis using m True by auto
    next
      case False
      then have "q = m" using Cons.prems Some by simp
      then show ?thesis using m False by auto
    qed
  qed
qed

text \<open>
  What \<open>get_next_question\<close> returns after a question of the catalog: nothing exactly
  when no active question has a greater order, and otherwise an active question of the
  least order above the current one.
\<close>

lemma get_next_question_after:
  assumes "find_question db qid = Some cur"
  shows "\<exists>nxt. get_next_question db (Some qid) = Inr nxt \<and>
           (case nxt of
              None \<Rightarrow> \<forall>r\<in>set (questions db). q_is_active r \<longrightarrow> \<not> q_order cur < q_order r
            | Some nq \<Rightarrow>
                nq \<in> set (questions db) \<and> q_is_active nq \<and> q_order cur < q_order nq \<and>
                (\<forall>r\<in>set (questions db).
                    q_is_active r \<and> q_order cur < q_order r \<longrightarrow> q_order nq \<le> q_order r))"
proof -
  let ?later = "filter (\<lambda>q. q_is_active q \<and> q_order cur < q_order q) (questions db)"
  have g: "get_next_question db (Some qid) = Inr (first_by_order ?later)"
    using assms by (simp add: get_next_question_def)
  show ?thesis
  proof (cases "first_by_order ?later")
    case None
    then have "?later = []" by (simp add: first_by_order_None)
    then have "\<forall>r\<in>set (questions db). q_is_active r \<longrightarrow> \<not> q_order cur < q_order r"
      by (auto simp: filter_empty_conv)
    then show ?thesis using g None by simp
  next
    case (Some nq)
    have "nq \<in> set ?later \<and> (\<forall>r\<in>set ?later. q_order nq \<le> q_order r)"
      by (rule first_by_order_least [OF Some])
    then show ?thesis using g Some by auto
  qed
qed


section \<open>An accepted answer\<close>

lemma handle_answer_callback_accepted:
  assumes "parse_callback cb = Inr (qid, ans)"
    and "find_state db tid = Some cs" and "cs_state cs = Some ''journaling''"
    and "find_user db tid = Some u"
    and "get_next_question db (Some qid) = Inr nxt"
  shows "responses (persisted db (fst (handle_answer_callback db tid cb now))) =
           (if ans = ''skipped'' then responses db
            else responses db @
                 [\<lparr>r_id = next_id (map r_id (responses db)), r_user_id = u_id u,
                   r_question_id = qid, r_answer = ans, r_responded_at = now,
                   r_session_id = cs_session_id cs\<rparr>]) \<and>
         (case nxt of
            Some nq \<Rightarrow>
              snd (handle_answer_callback db tid cb now) =
                Inr (ShowQuestion nq (get_question_options QUESTION_BANK nq)) \<and>
              conversation_of (persisted db (fst (handle_answer_callback db tid cb now))) tid =
                Some (Some (q_id nq), cs_session_id cs, Some ''journaling'')
          | None \<Rightarrow>
              snd (handle_answer_callback db tid cb now) = Inr SessionComplete \<and>
              conversation_of (persisted db (fst (handle_answer_callback db tid cb now))) tid =
                Some (None, cs_session_id cs, None))"
proof (cases "ans = ''skipped''")
  case True
  note t = find_state_telegram_id [OF assms(2)]
  show ?thesis
    using handle_answer_callback_skip [OF assms(1) [unfolded True] assms(2,3,5), of now] True
    by (cases nxt)
       (simp_all add: conversation_of_write_state [OF assms(2)] t assms(3))
next
  case False
  note t = find_state_telegram_id [OF assms(2)]
  let ?db1 = "db\<lparr>responses := responses db @
            [\<lparr>r_id = next_id (map r_id (responses db)), r_user_id = u_id u,
              r_question_id = qid, r_answer = ans, r_responded_at = now,
              r_session_id = cs_session_id cs\<rparr>]\<rparr>"
  have f: "find_state ?db1 tid = Some cs" using assms(2) by simp
  show ?thesis
    using handle_answer_callback_answer [OF assms(1) False assms(2,3,4,5) refl, of now] False
    by (cases nxt)
       (simp_all add: conversation_of_write_state [OF f] t assms(3))
qed

text \<open>
  C3. For a user with a \<open>User\<close> row whose mode is \<open>"journaling"\<close>, and a submission
  for a question \<open>cur\<close> of the catalog: the skip button (answer \<open>"skipped"\<close>) adds no
  \<open>Response\<close> row; every other answer adds exactly one row, with the user's id, the
  question id, the answer text, the session id of the stored state and the time of the
  call. In both cases the state advances. When no active question has an order above
  that of \<open>cur\<close>, the reply is the completion message and the state has no outstanding
  question and no mode. Otherwise the reply shows an active question of the least order
  above that of \<open>cur\<close>, and the state holds that question, the same session and the
  mode \<open>"journaling"\<close>.
\<close>

theorem handle_answer_callback_records_and_advances:
  assumes "parse_callback cb = Inr (qid, ans)"
    and "find_state db tid = Some cs" and "cs_state cs = Some ''journaling''"
    and "find_user db tid = Some u"
    and "find_question db qid = Some cur"
  shows "responses (persisted db (fst (handle_answer_callback db tid cb now))) =
           (if ans = ''skipped'' then responses db
            else responses db @
                 [\<lparr>r_id = next_id (map r_id (responses db)), r_user_id = u_id u,
                   r_question_id = qid, r_answer = ans, r_responded_at = now,
                   r_session_id = cs_session_id cs\<rparr>]) \<and>
         ((\<forall>r\<in>set (questions db). q_is_active r \<longrightarrow> \<not> q_order cur < q_order r) \<longrightarrow>
            snd (handle_answer_callback db tid cb now) = Inr SessionComplete \<and>
            conversation_of (persisted db (fst (handle_answer_callback db tid cb now))) tid =
              Some (None, cs_session_id cs, None)) \<and>
         ((\<exists>r\<in>set (questions db). q_is_active r \<and> q_order cur < q_order r) \<longrightarrow>
            (\<exists>nq\<in>set (questions db).
                q_is_active nq \<and> q_order cur < q_order nq \<and>
                (\<forall>r\<in>set (questions db).
                    q_is_active r \<and> q_order cur < q_order r \<longrightarrow> q_order nq \<le> q_order r) \<and>
                snd (handle_answer_callback db tid cb now) =
                  Inr (ShowQuestion nq (get_question_options QUESTION_BANK nq)) \<and>
                conversation_of (persisted db (fst (handle_answer_callback db tid cb now))) tid =
                  Some (Some (q_id nq), cs_session_id cs, Some ''journaling'')))"
proof -
  obtain nxt where n: "get_next_question db (Some qid) = Inr nxt"
    and c: "case nxt of
              None \<Rightarrow> \<forall>r\<in>set (questions db). q_is_active r \<longrightarrow> \<not> q_order cur < q_order r
            | Some nq \<Rightarrow>
                nq \<in> set (questions db) \<and> q_is_active nq \<and> q_order cur < q_order nq \<and>
                (\<forall>r\<in>set (questions db).
                    q_is_active r \<and> q_order cur < q_order r \<longrightarrow> q_order nq \<le> q_order r)"
    using get_next_question_after [OF assms(5)] by blast
  note a = handle_answer_callback_accepted [OF assms(1-4) n, of now]
  show ?thesis
  proof (cases nxt)
    case None
    then show ?thesis using a c by auto
  next
    case (Some nq)
    have "nq \<in> set (questions db)" "q_is_active nq" "q_order cur < q_order nq"
      "\<forall>r\<in>set (questions db).
          q_is_active r \<and> q_order cur < q_order r \<longrightarrow> q_order nq \<le> q_order r"
      using c Some by simp_all
    moreover have "snd (handle_answer_callback db tid cb now) =
                  Inr (ShowQuestion nq (get_question_options QUESTION_BANK nq))"
      "conversation_of (persisted db (fst (handle_answer_callback db tid cb now))) tid =
                  Some (Some (q_id nq), cs_session_id cs, Some ''journaling'')"
      using a Some by simp_all
    ultimately show ?thesis using a by blast
  qed
qed


lemma journal_command_db_start:
  "journal_command db_start 7 (Some ''alice'') ''s1'' 100 =
     (db_asked_1, Inr (ShowQuestion q_mood (get_question_options QUESTION_BANK q_mood)))"
  by (simp add: journal_command_def get_or_create_user_def find_user_def db_start_def alice_def
        get_next_question_def q_mood_def q_gratitude_def update_conversation_state_def
        find_state_def new_conversation_state_def next_id_def db_asked_1_def cs_asked_1_def)

lemma find_question_examples:
  "find_question db_asked_1 1 = Some q_mood" "find_question db_asked_2 2 = Some q_gratitude"
  "find_question db_shuffled 1 = Some q_mood"
  by (simp_all add: find_question_def db_asked_1_def db_asked_2_def db_start_def db_shuffled_def
        q_mood_def q_gratitude_def)

lemma db_shuffled_rows:
  "find_state db_shuffled 7 = Some cs_asked_1" "find_user db_shuffled 7 = Some alice"
  "questions db_shuffled = [q_mood, q_stress, q_energy]" "responses db_shuffled = []"
  by (simp_all add: find_state_def find_user_def db_shuffled_def cs_asked_1_def alice_def)

lemma catalog_orders:
  "q_order q_mood = 1" "q_order q_gratitude = 2" "q_order q_stress = 3" "q_order q_energy = 2"
  "q_id q_energy = 3" "q_id q_gratitude = 2"
  "questions db_asked_1 = [q_mood, q_gratitude]" "questions db_asked_2 = [q_mood, q_gratitude]"
  by (simp_all add: q_mood_def q_gratitude_def q_stress_def q_energy_def db_asked_1_def
        db_asked_2_def db_start_def)

theorem handle_answer_callback_records_and_advances_witness:
  "journal_command db_start 7 (Some ''alice'') ''s1'' 100 =
     (db_asked_1, Inr (ShowQuestion q_mood (get_question_options QUESTION_BANK q_mood))) \<and>
   persisted db_asked_1 (fst (handle_answer_callback db_asked_1 7 press_great_1 200)) = db_asked_2 \<and>
   responses db_asked_2 = [response_1] \<and>
   conversation_of db_asked_2 7 = Some (Some 2, Some ''s1'', Some ''journaling'') \<and>
   snd (handle_answer_callback db_asked_2 7 ''skip_2'' 300) = Inr SessionComplete \<and>
   responses (persisted db_asked_2 (fst (handle_answer_callback db_asked_2 7 ''skip_2'' 300))) =
     [response_1] \<and>
   conversation_of (persisted db_asked_2 (fst (handle_answer_callback db_asked_2 7 ''skip_2'' 300))) 7 =
     Some (None, Some ''s1'', None) \<and>
   snd (handle_answer_callback db_shuffled 7 press_great_1 200) =
     Inr (ShowQuestion q_energy (get_question_options QUESTION_BANK q_energy)) \<and>
   conversation_of (persisted db_shuffled (fst (handle_answer_callback db_shuffled 7 press_great_1 200))) 7 =
     Some (Some 3, Some ''s1'', Some ''journaling'')"
proof -
  note t = handle_answer_callback_records_and_advances
  have j: "cs_state cs_asked_1 = Some ''journaling''"
    "cs_state (cs_asked_1\<lparr>cs_current_question_id := Some 2, cs_updated_at := 200\<rparr>) =
       Some ''journaling''"
    "cs_session_id cs_asked_1 = Some ''s1''"
    by (simp_all add: cs_asked_1_def)
  have a: "responses (persisted db_asked_1 (fst (handle_answer_callback db_asked_1 7 press_great_1 200))) =
        responses db_asked_1 @
          [\<lparr>r_id = next_id (map r_id (responses db_asked_1)), r_user_id = u_id alice,
            r_question_id = 1, r_answer = great, r_responded_at = 200,
            r_session_id = cs_session_id cs_asked_1\<rparr>]"
    using t [OF parse_press_great_1 find_state_examples(2) j(1) find_user_examples(1)
               find_question_examples(1), of 200]
    by (simp add: great_not_skipped)
  have l: "\<forall>r\<in>set (questions db_asked_2). q_is_active r \<longrightarrow> \<not> q_order q_gratitude < q_order r"
    by (simp add: catalog_orders)
  have b: "responses (persisted db_asked_2 (fst (handle_answer_callback db_asked_2 7 ''skip_2'' 300))) =
        responses db_asked_2 \<and>
      snd (handle_answer_callback db_asked_2 7 ''skip_2'' 300) = Inr SessionComplete \<and>
      conversation_of (persisted db_asked_2 (fst (handle_answer_callback db_asked_2 7 ''skip_2'' 300))) 7 =
        Some (None, Some ''s1'', None)"
    using t [OF parse_skip_2 find_state_examples(3) j(2) find_user_examples(2)
               find_question_examples(2), of 300] l
    by (simp add: cs_asked_1_def)
  have e: "\<exists>r\<in>set (questions db_shuffled). q_is_active r \<and> q_order q_mood < q_order r"
    by (simp add: db_shuffled_rows catalog_orders q_stress_def)
  obtain nq where nq: "nq \<in> set (questions db_shuffled)" "q_order q_mood < q_order nq"
      "\<forall>r\<in>set (questions db_shuffled).
          q_is_active r \<and> q_order q_mood < q_order r \<longrightarrow> q_order nq \<le> q_order r"
      "snd (handle_answer_callback db_shuffled 7 press_great_1 200) =
         Inr (ShowQuestion nq (get_question_options QUESTION_BANK nq))"
      "conversation_of (persisted db_shuffled (fst (handle_answer_callback db_shuffled 7 press_great_1 200))) 7 =
         Some (Some (q_id nq), cs_session_id cs_asked_1, Some ''journaling'')"
    using t [OF parse_press_great_1 db_shuffled_rows(1) j(1) db_shuffled_rows(2)
               find_question_examples(3), of 200] e
    by blast
  have "q_is_active q_energy" by (simp add: q_energy_def)
  then have "nq = q_energy"
    using nq(1,2,3) by (auto simp: db_shuffled_rows catalog_orders)
  then have s: "snd (handle_answer_callback db_shuffled 7 press_great_1 200) =
         Inr (ShowQuestion q_energy (get_question_options QUESTION_BANK q_energy))"
      "conversation_of (persisted db_shuffled (fst (handle_answer_callback db_shuffled 7 press_great_1 200))) 7 =
         Some (Some 3, Some ''s1'', Some ''journaling'')"
    using nq(4,5) by (simp_all add: catalog_orders j)
  have c: "responses db_asked_2 = [response_1]"
    by (simp add: db_asked_2_def db_start_def)
  have c': "conversation_of db_asked_2 7 = Some (Some 2, Some ''s1'', Some ''journaling'')"
    by (simp add: conversation_of_def find_state_examples cs_asked_1_def)
  have d: "persisted db_asked_1 (fst (handle_answer_callback db_asked_1 7 press_great_1 200)) = db_asked_2"
    by (simp add: first_press_great_1)
  show ?thesis using b c c' d s journal_command_db_start by simp
qed

section \<open>The last question\<close>

lemma press_yes_2_completes:
  "handle_answer_callback db_asked_2 7 press_yes_2 300 =
     ([db_asked_2\<lparr>responses :=
          [response_1,
           \<lparr>r_id = 2, r_user_id = 1, r_question_id = 2,
            r_answer = ''Yes '' @ [CHR 0xF0, CHR 0x9F, CHR 0x98, CHR 0x8A],
            r_responded_at = 300, r_session_id = Some ''s1''\<rparr>]\<rparr>,
       db_done\<lparr>responses :=
          [response_1,
           \<lparr>r_id = 2, r_user_id = 1, r_question_id = 2,
            r_answer = ''Yes '' @ [CHR 0xF0, CHR 0x9F, CHR 0x98, CHR 0x8A],
            r_responded_at = 300, r_session_id = Some ''s1''\<rparr>]\<rparr>],
      Inr SessionComplete)"
proof -
  have n: "''Yes '' @ [CHR 0xF0, CHR 0x9F, CHR 0x98, CHR 0x8A] \<noteq> ''skipped''" by simp
  show ?thesis
    using handle_answer_callback_answer
            [OF parse_press_yes_2 n find_state_examples(3) _
                find_user_examples(2) get_next_question_examples(3) refl, of 300]
    by (simp add: cs_asked_1_def response_1_def db_asked_2_def db_done_def db_start_def alice_def
          next_id_def write_state_def)
qed

text \<open>
  C4, as the code has it. When the accepted answer was to the last remaining question
  (no active question of greater order), the reply is the completion message and the
  stored state has no outstanding question and no mode. The session id of the state
  is left as it was.
\<close>

theorem handle_answer_callback_last_question:
  assumes "parse_callback cb = Inr (qid, ans)"
    and "find_state db tid = Some cs" and "cs_state cs = Some ''journaling''"
    and "find_user db tid = Some u"
    and "get_next_question db (Some qid) = Inr None"
  shows "snd (handle_answer_callback db tid cb now) = Inr SessionComplete \<and>
         conversation_of (persisted db (fst (handle_answer_callback db tid cb now))) tid =
           Some (None, cs_session_id cs, None)"
proof (cases "ans = ''skipped''")
  case True
  note t = find_state_telegram_id [OF assms(2)]
  show ?thesis
    using handle_answer_callback_skip [OF assms(1) [unfolded True] assms(2,3,5), of now]
    by (simp add: conversation_of_write_state [OF assms(2)] t)
next
  case False
  note t = find_state_telegram_id [OF assms(2)]
  let ?db1 = "db\<lparr>responses := responses db @
            [\<lparr>r_id = next_id (map r_id (responses db)), r_user_id = u_id u,
              r_question_id = qid, r_answer = ans, r_responded_at = now,
              r_session_id = cs_session_id cs\<rparr>]\<rparr>"
  have f: "find_state ?db1 tid = Some cs" using assms(2) by simp
  show ?thesis
    using handle_answer_callback_answer [OF assms(1) False assms(2,3,4,5) refl, of now]
    by (simp add: conversation_of_write_state [OF f] t)
qed

theorem handle_answer_callback_last_question_witness:
  "snd (handle_answer_callback db_asked_2 7 press_yes_2 300) = Inr SessionComplete \<and>
   conversation_of (persisted db_asked_2 (fst (handle_answer_callback db_asked_2 7 press_yes_2 300))) 7 =
     Some (None, cs_session_id (cs_asked_1\<lparr>cs_current_question_id := Some 2, cs_updated_at := 200\<rparr>),
           None)"
proof -
  have j: "cs_state (cs_asked_1\<lparr>cs_current_question_id := Some 2, cs_updated_at := 200\<rparr>) =
       Some ''journaling''"
    by (simp add: cs_asked_1_def)
  show ?thesis
    by (rule handle_answer_callback_last_question
            [OF parse_press_yes_2 find_state_examples(3) j find_user_examples(2)
                get_next_question_examples(3)])
qed

text \<open>
  The claim C4 as stated fails: after the accepted answer to the last question the
  session id of the stored state is still \<open>s1\<close>, not null.
\<close>

theorem handle_answer_callback_keeps_session_id:
  "get_next_question db_asked_2 (Some 2) = Inr None \<and>
   snd (handle_answer_callback db_asked_2 7 press_yes_2 300) = Inr SessionComplete \<and>
   conversation_of (persisted db_asked_2 (fst (handle_answer_callback db_asked_2 7 press_yes_2 300))) 7 =
     Some (None, Some ''s1'', None)"
  by (simp add: press_yes_2_completes get_next_question_examples conversation_of_def
        find_state_def db_done_def cs_asked_1_def)

section \<open>The commits of an answer submission\<close>

text \<open>
  The commits of the handler before it sends its message, by what it goes on to send
  or by the exception that ends it first.
\<close>

lemma handle_answer_callback_commit_shapes:
  "(snd (handle_answer_callback db tid cb now) = Inr SessionExpired \<longrightarrow>
      fst (handle_answer_callback db tid cb now) = []) \<and>
   ((\<exists>e. snd (handle_answer_callback db tid cb now) = Inl e) \<longrightarrow>
      fst (handle_answer_callback db tid cb now) = [] \<or>
      (\<exists>r. fst (handle_answer_callback db tid cb now) =
             [db\<lparr>responses := responses db @ [r]\<rparr>])) \<and>
   (snd (handle_answer_callback db tid cb now) = Inr SessionComplete \<or>
    (\<exists>nq kb. snd (handle_answer_callback db tid cb now) = Inr (ShowQuestion nq kb)) \<longrightarrow>
      (\<exists>qid ans cs cs' r.
          parse_callback cb = Inr (qid, ans) \<and> find_state db tid = Some cs \<and>
          cs_id cs' = cs_id cs \<and> cs_session_id cs' = cs_session_id cs \<and>
          r_question_id r = qid \<and> r_answer r = ans \<and>
          fst (handle_answer_callback db tid cb now) =
            (if ans = ''skipped'' then [write_state db cs']
             else [db\<lparr>responses := responses db @ [r]\<rparr>,
                   write_state (db\<lparr>responses := responses db @ [r]\<rparr>) cs'])))"
proof (intro conjI impI)
  show "fst (handle_answer_callback db tid cb now) = []"
    if "snd (handle_answer_callback db tid cb now) = Inr SessionExpired"
    using that
    by (auto simp: handle_answer_callback_def save_response_def Let_def
          split: sum.splits option.splits if_splits prod.splits)
  show "fst (handle_answer_callback db tid cb now) = [] \<or>
      (\<exists>r. fst (handle_answer_callback db tid cb now) =
             [db\<lparr>responses := responses db @ [r]\<rparr>])"
    if "\<exists>e. snd (handle_answer_callback db tid cb now) = Inl e"
    using that
    by (auto simp: handle_answer_callback_def save_response_def Let_def
          split: sum.splits option.splits if_splits prod.splits)
  show "\<exists>qid ans cs cs' r.
          parse_callback cb = Inr (qid, ans) \<and> find_state db tid = Some cs \<and>
          cs_id cs' = cs_id cs \<and> cs_session_id cs' = cs_session_id cs \<and>
          r_question_id r = qid \<and> r_answer r = ans \<and>
          fst (handle_answer_callback db tid cb now) =
            (if ans = ''skipped'' then [write_state db cs']
             else [db\<lparr>responses := responses db @ [r]\<rparr>,
                   write_state (db\<lparr>responses := responses db @ [r]\<rparr>) cs'])"
    if h: "snd (handle_answer_callback db tid cb now) = Inr SessionComplete \<or>
       (\<exists>nq kb. snd (handle_answer_callback db tid cb now) = Inr (ShowQuestion nq kb))"
  proof -
    from h obtain qid ans where p: "parse_callback cb = Inr (qid, ans)"
      by (cases "parse_callback cb") (auto simp: handle_answer_callback_def)
    from h p obtain cs where s: "find_state db tid = Some cs"
      by (cases "find_state db tid") (auto simp: handle_answer_callback_def)
    from h p s have j: "cs_state cs = Some ''journaling''"
      by (auto simp: handle_answer_callback_def split: if_splits)
    show ?thesis
    proof (cases "ans = ''skipped''")
      case True
      from h p s j True obtain nxt where n: "get_next_question db (Some qid) = Inr nxt"
        by (cases "get_next_question db (Some qid)")
           (auto simp: handle_answer_callback_def save_response_def)
      let ?r = "\<lparr>r_id = 0, r_user_id = 0, r_question_id = qid, r_answer = ans,
                 r_responded_at = now, r_session_id = None\<rparr>"
      show ?thesis
      proof (cases nxt)
        case None
        let ?cs' = "cs\<lparr>cs_state := None, cs_current_question_id := None, cs_updated_at := now\<rparr>"
        have "fst (handle_answer_callback db tid cb now) = [write_state db ?cs']"
          using handle_answer_callback_skip [OF p [unfolded True] s j n, of now] None by simp
        then show ?thesis using p s True
          by (intro exI [of _ qid] exI [of _ ans] exI [of _ cs] exI [of _ ?cs'] exI [of _ ?r]) simp
      next
        case (Some nq)
        let ?cs' = "cs\<lparr>cs_current_question_id := Some (q_id nq), cs_updated_at := now\<rparr>"
        have "fst (handle_answer_callback db tid cb now) = [write_state db ?cs']"
          using handle_answer_callback_skip [OF p [unfolded True] s j n, of now] Some by simp
        then show ?thesis using p s True
          by (intro exI [of _ qid] exI [of _ ans] exI [of _ cs] exI [of _ ?cs'] exI [of _ ?r]) simp
      qed
    next
      case False
      from h p s j False obtain u where u: "find_user db tid = Some u"
        by (cases "find_user db tid")
           (auto simp: handle_answer_callback_def save_response_def)
      let ?r = "\<lparr>r_id = next_id (map r_id (responses db)), r_user_id = u_id u,
              r_question_id = qid, r_answer = ans, r_responded_at = now,
              r_session_id = cs_session_id cs\<rparr>"
      from h p s j False u obtain nxt where n: "get_next_question db (Some qid) = Inr nxt"
        by (cases "get_next_question db (Some qid)")
           (auto simp: handle_answer_callback_def save_response_def Let_def)
      show ?thesis
      proof (cases nxt)
        case None
        let ?cs' = "cs\<lparr>cs_state := None, cs_current_question_id := None, cs_updated_at := now\<rparr>"
        have "fst (handle_answer_callback db tid cb now) =
              [db\<lparr>responses := responses db @ [?r]\<rparr>,
               write_state (db\<lparr>responses := responses db @ [?r]\<rparr>) ?cs']"
          using handle_answer_callback_answer [OF p False s j u n refl, of now] None by simp
        then show ?thesis using p s False
          by (intro exI [of _ qid] exI [of _ ans] exI [of _ cs] exI [of _ ?cs'] exI [of _ ?r]) simp
      next
        case (Some nq)
        let ?cs' = "cs\<lparr>cs_current_question_id := Some (q_id nq), cs_updated_at := now\<rparr>"
        have "fst (handle_answer_callback db tid cb now) =
              [db\<lparr>responses := responses db @ [?r]\<rparr>,
               write_state (db\<lparr>responses := responses db @ [?r]\<rparr>) ?cs']"
          using handle_answer_callback_answer [OF p False s j u n refl, of now] Some by simp
        then show ?thesis using p s False
          by (intro exI [of _ qid] exI [of _ ans] exI [of _ cs] exI [of _ ?cs'] exI [of _ ?r]) simp
      qed
    qed
  qed
qed

lemma fst_handle_answer_callback_and_reply:
  "fst (handle_answer_callback_and_reply delivered db tid cb now) =
   fst (handle_answer_callback db tid cb now)"
  by (simp add: handle_answer_callback_and_reply_def split: prod.splits)

lemma snd_handle_answer_callback_and_reply:
  "snd (handle_answer_callback_and_reply delivered db tid cb now) =
   send_reply delivered (snd (handle_answer_callback db tid cb now))"
  by (simp add: handle_answer_callback_and_reply_def split: prod.splits)

text \<open>No exception raised before the message is sent is a \<open>TelegramError\<close>.\<close>

lemma parse_callback_error:
  "parse_callback cb = Inl e \<Longrightarrow> e = ValueError \<or> e = IndexError"
  by (auto simp: parse_callback_def Let_def split: if_splits list.splits option.splits)

lemma handle_answer_callback_error:
  "snd (handle_answer_callback db tid cb now) = Inl e \<Longrightarrow>
   e = ValueError \<or> e = IndexError \<or> e = AttributeError"
  using parse_callback_error [of cb e]
  by (auto simp: handle_answer_callback_def save_response_def get_next_question_def Let_def
        split: sum.splits option.splits if_splits prod.splits)

lemma send_reply_cases:
  "send_reply delivered outcome = Inr r \<longleftrightarrow> delivered \<and> outcome = Inr r"
  "send_reply delivered outcome = Inl e \<longleftrightarrow>
     outcome = Inl e \<or> (\<not> delivered \<and> e = TelegramError \<and> (\<exists>r. outcome = Inr r))"
  by (auto simp: send_reply_def split: sum.splits)


text \<open>
  C2, as the code has it. The \<open>Response\<close> insert and the \<open>ConversationState\<close> update
  are two commits, the insert first, and both come before the reply is sent. A
  submission that is rejected as expired commits nothing. One that ends in an exception
  other than a failed delivery has committed nothing, or the new \<open>Response\<close> row alone,
  the stored state not advanced. One that ends with the next question or the completion
  message has committed the state update alone for a skip, and the \<open>Response\<close> row
  and then the state update for any other answer. One whose reply the transport refuses
  has committed exactly what it commits when the reply is delivered.
\<close>

theorem handle_answer_callback_and_reply_commits:
  "(snd (handle_answer_callback_and_reply delivered db tid cb now) = Inr SessionExpired \<longrightarrow>
      fst (handle_answer_callback_and_reply delivered db tid cb now) = []) \<and>
   ((\<exists>e. snd (handle_answer_callback_and_reply delivered db tid cb now) = Inl e \<and>
         e \<noteq> TelegramError) \<longrightarrow>
      fst (handle_answer_callback_and_reply delivered db tid cb now) = [] \<or>
      (\<exists>r. fst (handle_answer_callback_and_reply delivered db tid cb now) =
             [db\<lparr>responses := responses db @ [r]\<rparr>])) \<and>
   (snd (handle_answer_callback_and_reply delivered db tid cb now) = Inr SessionComplete \<or>
    (\<exists>nq kb. snd (handle_answer_callback_and_reply delivered db tid cb now) =
               Inr (ShowQuestion nq kb)) \<longrightarrow>
      (\<exists>qid ans cs cs' r.
          parse_callback cb = Inr (qid, ans) \<and> find_state db tid = Some cs \<and>
          cs_id cs' = cs_id cs \<and> cs_session_id cs' = cs_session_id cs \<and>
          r_question_id r = qid \<and> r_answer r = ans \<and>
          fst (handle_answer_callback_and_reply delivered db tid cb now) =
            (if ans = ''skipped'' then [write_state db cs']
             else [db\<lparr>responses := responses db @ [r]\<rparr>,
                   write_state (db\<lparr>responses := responses db @ [r]\<rparr>) cs']))) \<and>
   (snd (handle_answer_callback_and_reply delivered db tid cb now) = Inl TelegramError \<longrightarrow>
      \<not> delivered \<and>
      (\<exists>r. snd (handle_answer_callback_and_reply True db tid cb now) = Inr r) \<and>
      fst (handle_answer_callback_and_reply delivered db tid cb now) =
        fst (handle_answer_callback_and_reply True db tid cb now))"
proof (intro conjI impI)
  note s = handle_answer_callback_commit_shapes [of db tid cb now]
  note f = fst_handle_answer_callback_and_reply
  note r = snd_handle_answer_callback_and_reply
  show "fst (handle_answer_callback_and_reply delivered db tid cb now) = []"
    if "snd (handle_answer_callback_and_reply delivered db tid cb now) = Inr SessionExpired"
    using that s by (simp add: f r send_reply_cases)
  show "fst (handle_answer_callback_and_reply delivered db tid cb now) = [] \<or>
      (\<exists>r. fst (handle_answer_callback_and_reply delivered db tid cb now) =
             [db\<lparr>responses := responses db @ [r]\<rparr>])"
    if "\<exists>e. snd (handle_answer_callback_and_reply delivered db tid cb now) = Inl e \<and>
         e \<noteq> TelegramError"
  proof -
    from that have "\<exists>e. snd (handle_answer_callback db tid cb now) = Inl e"
      by (auto simp: r send_reply_cases)
    then show ?thesis using s by (simp add: f)
  qed
  show "\<exists>qid ans cs cs' r.
          parse_callback cb = Inr (qid, ans) \<and> find_state db tid = Some cs \<and>
          cs_id cs' = cs_id cs \<and> cs_session_id cs' = cs_session_id cs \<and>
          r_question_id r = qid \<and> r_answer r = ans \<and>
          fst (handle_answer_callback_and_reply delivered db tid cb now) =
            (if ans = ''skipped'' then [write_state db cs']
             else [db\<lparr>responses := responses db @ [r]\<rparr>,
                   write_state (db\<lparr>responses := responses db @ [r]\<rparr>) cs'])"
    if "snd (handle_answer_callback_and_reply delivered db tid cb now) = Inr SessionComplete \<or>
    (\<exists>nq kb. snd (handle_answer_callback_and_reply delivered db tid cb now) =
               Inr (ShowQuestion nq kb))"
  proof -
    from that have "snd (handle_answer_callback db tid cb now) = Inr SessionComplete \<or>
      (\<exists>nq kb. snd (handle_answer_callback db tid cb now) = Inr (ShowQuestion nq kb))"
      by (auto simp: r send_reply_cases)
    then show ?thesis using s unfolding f by blast
  qed
  assume t: "snd (handle_answer_callback_and_reply delivered db tid cb now) = Inl TelegramError"
  have n: "snd (handle_answer_callback db tid cb now) \<noteq> Inl TelegramError"
    using handle_answer_callback_error [of db tid cb now TelegramError] by auto
  from t n show "\<not> delivered" by (auto simp: r send_reply_cases)
  from t n show "\<exists>r. snd (handle_answer_callback_and_reply True db tid cb now) = Inr r"
    by (auto simp: r send_reply_cases)
  show "fst (handle_answer_callback_and_reply delivered db tid cb now) =
        fst (handle_answer_callback_and_reply True db tid cb now)"
    by (simp add: f)
qed

theorem handle_answer_callback_and_reply_commits_witness:
  "fst (handle_answer_callback_and_reply True db_done 7 ''skip_2'' 400) = [] \<and>
   (fst (handle_answer_callback_and_reply True db_asked_2 7 ''answer_yes_99'' 300) = [] \<or>
    (\<exists>r. fst (handle_answer_callback_and_reply True db_asked_2 7 ''answer_yes_99'' 300) =
           [db_asked_2\<lparr>responses := responses db_asked_2 @ [r]\<rparr>])) \<and>
   snd (handle_answer_callback_and_reply False db_asked_2 7 ''skip_2'' 300) = Inl TelegramError \<and>
   fst (handle_answer_callback_and_reply False db_asked_2 7 ''skip_2'' 300) =
     fst (handle_answer_callback_and_reply True db_asked_2 7 ''skip_2'' 300) \<and>
   fst (handle_answer_callback_and_reply True db_asked_2 7 ''skip_2'' 300) = [db_done]"
proof -
  note t = handle_answer_callback_and_reply_commits
  have g: "find_state db_done 7 = None \<or>
     (\<exists>cs. find_state db_done 7 = Some cs \<and> cs_state cs \<noteq> Some ''journaling'')"
    by (simp add: find_state_examples cs_asked_1_def)
  have a: "snd (handle_answer_callback_and_reply True db_done 7 ''skip_2'' 400) =
           Inr SessionExpired"
    using handle_answer_callback_rejected_parsed [OF parse_skip_2 g, of 400]
    by (simp add: snd_handle_answer_callback_and_reply send_reply_def)
  have b: "\<exists>e. snd (handle_answer_callback_and_reply True db_asked_2 7 ''answer_yes_99'' 300) =
             Inl e \<and> e \<noteq> TelegramError"
    by (simp add: snd_handle_answer_callback_and_reply unknown_question_99 send_reply_def)
  have c: "snd (handle_answer_callback_and_reply False db_asked_2 7 ''skip_2'' 300) =
           Inl TelegramError"
    by (simp add: snd_handle_answer_callback_and_reply skip_2_completes send_reply_def)
  have d: "fst (handle_answer_callback_and_reply True db_asked_2 7 ''skip_2'' 300) = [db_done]"
    by (simp add: fst_handle_answer_callback_and_reply skip_2_completes)
  have 1: "fst (handle_answer_callback_and_reply True db_done 7 ''skip_2'' 400) = []"
    using t [of True db_done 7 "''skip_2''" 400] a by blast
  have 2: "fst (handle_answer_callback_and_reply True db_asked_2 7 ''answer_yes_99'' 300) = [] \<or>
    (\<exists>r. fst (handle_answer_callback_and_reply True db_asked_2 7 ''answer_yes_99'' 300) =
           [db_asked_2\<lparr>responses := responses db_asked_2 @ [r]\<rparr>])"
    using t [of True db_asked_2 7 "''answer_yes_99''" 300] b by blast
  have 3: "fst (handle_answer_callback_and_reply False db_asked_2 7 ''skip_2'' 300) =
     fst (handle_answer_callback_and_reply True db_asked_2 7 ''skip_2'' 300)"
    using t [of False db_asked_2 7 "''skip_2''" 300] c by blast
  show ?thesis using 1 2 3 c d by blast
qed

text \<open>
  The claim C2 as stated fails. A submission whose question id is not in the catalog
  ends in \<open>AttributeError\<close> after its \<open>Response\<close> row was committed: the persisted
  database is not the one before the call, though the stored state has not advanced.
  And an ordinary submission commits twice: its first commit holds the \<open>Response\<close>
  row with the state of the user still at question 1.
\<close>

theorem handle_answer_callback_partial_write:
  "snd (handle_answer_callback db_asked_2 7 ''answer_yes_99'' 300) = Inl AttributeError \<and>
   persisted db_asked_2 (fst (handle_answer_callback db_asked_2 7 ''answer_yes_99'' 300)) \<noteq>
     db_asked_2 \<and>
   responses (persisted db_asked_2 (fst (handle_answer_callback db_asked_2 7 ''answer_yes_99'' 300))) =
     [response_1, \<lparr>r_id = 2, r_user_id = 1, r_question_id = 99, r_answer = ''yes'',
                   r_responded_at = 300, r_session_id = Some ''s1''\<rparr>] \<and>
   conversation_states
     (persisted db_asked_2 (fst (handle_answer_callback db_asked_2 7 ''answer_yes_99'' 300))) =
     conversation_states db_asked_2 \<and>
   fst (handle_answer_callback db_asked_1 7 press_great_1 200) =
     [db_asked_1\<lparr>responses := [response_1]\<rparr>, db_asked_2] \<and>
   conversation_of (db_asked_1\<lparr>responses := [response_1]\<rparr>) 7 =
     Some (Some 1, Some ''s1'', Some ''journaling'')"
proof -
  have n: "db_asked_2\<lparr>responses :=
          [response_1, \<lparr>r_id = 2, r_user_id = 1, r_question_id = 99, r_answer = ''yes'',
                        r_responded_at = 300, r_session_id = Some ''s1''\<rparr>]\<rparr> \<noteq> db_asked_2"
    by (simp add: db_asked_2_def db_start_def)
  have c: "conversation_of (db_asked_1\<lparr>responses := [response_1]\<rparr>) 7 =
     Some (Some 1, Some ''s1'', Some ''journaling'')"
    by (simp add: conversation_of_def find_state_examples cs_asked_1_def)
  show ?thesis
    using n c by (simp add: unknown_question_99 first_press_great_1)
qed

section \<open>The invariant of the conversation state\<close>

lemma state_invariant_same_table:
  "conversation_states db' = conversation_states db \<Longrightarrow>
   state_invariant db' = state_invariant db"
  by (simp add: state_invariant_def)

lemma state_invariant_write_state:
  "state_invariant db \<Longrightarrow> row_invariant cs' \<Longrightarrow> state_invariant (write_state db cs')"
  by (auto simp: state_invariant_def write_state_def list_all_iff)

lemma state_invariant_append:
  "state_invariant db \<Longrightarrow> row_invariant c \<Longrightarrow>
   state_invariant (db\<lparr>conversation_states := conversation_states db @ [c]\<rparr>)"
  by (simp add: state_invariant_def)

lemma state_invariant_row:
  "state_invariant db \<Longrightarrow> find_state db tid = Some cs \<Longrightarrow> row_invariant cs"
  using find_state_member [of db tid cs] by (simp add: state_invariant_def list_all_iff)

lemma row_invariant_next:
  "row_invariant cs \<Longrightarrow> cs_state cs = Some ''journaling'' \<Longrightarrow>
   row_invariant (cs\<lparr>cs_current_question_id := Some q, cs_updated_at := now\<rparr>)"
  by (simp add: row_invariant_def)

lemma row_invariant_complete:
  "row_invariant (cs\<lparr>cs_state := None, cs_current_question_id := None, cs_updated_at := now\<rparr>)"
  by (simp add: row_invariant_def)

lemma row_invariant_new: "row_invariant (new_conversation_state db tid now)"
  by (simp add: row_invariant_def new_conversation_state_def)

lemma conversation_states_get_or_create_user:
  "conversation_states (fst (get_or_create_user db tid username now)) = conversation_states db"
  by (simp add: get_or_create_user_def Let_def split: option.splits)

lemma fst_start_command:
  "fst (start_command db tid username now) = fst (get_or_create_user db tid username now)"
  by (simp add: start_command_def split: prod.splits)

lemma conversation_states_add_user_schedule:
  "conversation_states (add_user_schedule db tid ts tz now) = conversation_states db"
  by (simp add: add_user_schedule_def write_user_def Let_def split: option.splits)

lemma conversation_states_remove_user_schedule:
  "conversation_states (remove_user_schedule db tid t) = conversation_states db"
  by (simp add: remove_user_schedule_def split: option.splits)

lemma conversation_states_handle_schedule_callback:
  "conversation_states (fst (handle_schedule_callback db tid cb now)) = conversation_states db"
  by (simp add: handle_schedule_callback_def conversation_states_add_user_schedule Let_def
        split: list.splits)

lemma conversation_states_handle_settings_callback:
  "conversation_states (fst (handle_settings_callback db tid cb)) = conversation_states db"
  by (simp add: handle_settings_callback_def write_user_def delete_user_def Let_def
        split: option.splits)

lemma state_invariant_update_conversation_state:
  assumes "state_invariant db"
  shows "state_invariant
           (update_conversation_state db tid (Some q) (Some s) (Some ''journaling'') now)"
proof (cases "find_state db tid")
  case None
  have "row_invariant (new_conversation_state db tid now
          \<lparr>cs_current_question_id := Some q, cs_session_id := Some s,
           cs_state := Some ''journaling'', cs_updated_at := now\<rparr>)"
    by (simp add: row_invariant_def)
  then show ?thesis
    using assms None by (simp add: update_conversation_state_def state_invariant_append)
next
  case (Some c)
  have "row_invariant (c\<lparr>cs_current_question_id := Some q, cs_session_id := Some s,
           cs_state := Some ''journaling'', cs_updated_at := now\<rparr>)"
    by (simp add: row_invariant_def)
  then show ?thesis
    using assms Some by (simp add: update_conversation_state_def state_invariant_write_state)
qed

lemma state_invariant_journal_command:
  assumes "state_invariant db"
  shows "state_invariant (fst (journal_command db tid username sid now))"
proof -
  obtain db1 user created where g: "get_or_create_user db tid username now = (db1, user, created)"
    by (cases "get_or_create_user db tid username now") auto
  have "conversation_states db1 = conversation_states db"
    using conversation_states_get_or_create_user [of db tid username now] g by simp
  then have i: "state_invariant db1" using assms by (simp add: state_invariant_def)
  show ?thesis
    using i g
    by (auto simp: journal_command_def state_invariant_update_conversation_state
          split: sum.splits option.splits)
qed

lemma state_invariant_get_conversation_state:
  "state_invariant db \<Longrightarrow> state_invariant (fst (get_conversation_state db tid now))"
  by (simp add: get_conversation_state_def state_invariant_append row_invariant_new Let_def
        split: option.splits)

lemma state_invariant_responses [simp]:
  "state_invariant (db\<lparr>responses := rs\<rparr>) = state_invariant db"
  by (simp add: state_invariant_def)

text \<open>Every state that an answer submission commits satisfies the invariant.\<close>

lemma state_invariant_handle_answer_callback:
  assumes "state_invariant db"
  shows "list_all state_invariant (fst (handle_answer_callback db tid cb now))"
proof (cases "parse_callback cb")
  case (Inl e)
  then show ?thesis by (simp add: handle_answer_callback_def)
next
  case (Inr p)
  obtain qid ans where p: "parse_callback cb = Inr (qid, ans)" using Inr by (cases p) auto
  show ?thesis
  proof (cases "find_state db tid")
    case None
    then show ?thesis using p by (simp add: handle_answer_callback_def)
  next
    case (Some cs)
    show ?thesis
    proof (cases "cs_state cs = Some ''journaling''")
      case False
      then show ?thesis using p Some by (simp add: handle_answer_callback_def)
    next
      case True
      have r: "row_invariant cs" by (rule state_invariant_row [OF assms Some])
      have n: "state_invariant (write_state d
                 (cs\<lparr>cs_current_question_id := Some q, cs_updated_at := now\<rparr>))"
        if "state_invariant d" for d q
        using that by (simp add: state_invariant_write_state row_invariant_next [OF r True])
      have c: "state_invariant (write_state d
                 (cs\<lparr>cs_state := None, cs_current_question_id := None, cs_updated_at := now\<rparr>))"
        if "state_invariant d" for d
        using that by (simp add: state_invariant_write_state row_invariant_complete)
      show ?thesis
        using p Some True assms n c
        by (auto simp: handle_answer_callback_def save_response_def Let_def
              split: sum.splits option.splits)
    qed
  qed
qed

lemma state_invariant_persisted:
  "state_invariant db \<Longrightarrow> list_all state_invariant commits \<Longrightarrow>
   state_invariant (persisted db commits)"
  by (cases "commits = []") (simp_all add: persisted_def list_all_iff)

lemma state_invariant_button_callback:
  assumes "state_invariant db"
  shows "state_invariant (fst (button_callback db tid cb now))"
proof -
  have a: "state_invariant (persisted db (fst (handle_answer_callback db tid cb now)))"
    by (rule state_invariant_persisted [OF assms state_invariant_handle_answer_callback [OF assms]])
  have b: "state_invariant (fst (handle_schedule_callback db tid cb now))"
    using assms conversation_states_handle_schedule_callback [of db tid cb now]
    by (simp add: state_invariant_def)
  have c: "state_invariant (fst (handle_settings_callback db tid cb))"
    using assms conversation_states_handle_settings_callback [of db tid cb]
    by (simp add: state_invariant_def)
  show ?thesis
    using a b c assms by (auto simp: button_callback_def split: prod.splits)
qed

lemma state_invariant_apply_event:
  assumes "state_invariant db"
  shows "state_invariant (apply_event db ev)"
proof (cases ev)
  case (StartCommand tid username now)
  then show ?thesis
    using assms conversation_states_get_or_create_user [of db tid username now]
    by (simp add: fst_start_command state_invariant_def)
next
  case (JournalCommand tid username sid now)
  then show ?thesis using assms by (simp add: state_invariant_journal_command)
next
  case (ButtonCallback tid cb now)
  then show ?thesis using assms by (simp add: state_invariant_button_callback)
next
  case (SettingsCallback tid cb)
  then show ?thesis
    using assms conversation_states_handle_settings_callback [of db tid cb]
    by (simp add: state_invariant_def)
next
  case (GetConversationState tid now)
  then show ?thesis using assms by (simp add: state_invariant_get_conversation_state)
next
  case (AddUserSchedule tid ts tz now)
  then show ?thesis
    using assms by (simp add: state_invariant_def conversation_states_add_user_schedule)
next
  case (RemoveUserSchedule tid t)
  then show ?thesis
    using assms by (simp add: state_invariant_def conversation_states_remove_user_schedule)
qed

lemma state_invariant_run: "state_invariant db \<Longrightarrow> state_invariant (run db evs)"
  unfolding run_def
  by (induction evs arbitrary: db) (simp_all add: state_invariant_apply_event)

text \<open>
  The helper \<open>update_conversation_state\<close> by itself, with only some of its arguments
  given, can leave a row that breaks the invariant; the bot calls it in one place, from
  \<open>journal_command\<close>, with all three.
\<close>

lemma update_conversation_state_mode_only:
  "\<not> state_invariant (update_conversation_state db_start 7 None None (Some ''journaling'') 0)"
  by (simp add: update_conversation_state_def find_state_def new_conversation_state_def
        state_invariant_def row_invariant_def db_start_def Let_def)

text \<open>
  C5. Every operation keeps the invariant: if in every row of the state table the mode
  is \<open>"journaling"\<close> exactly when the outstanding question and the session id are both
  set, the same holds after any event. Hence it holds in every database reached from
  one with an empty state table by any sequence of events.
\<close>

theorem state_invariant_preserved_and_reachable:
  "(state_invariant db \<longrightarrow> state_invariant (apply_event db ev)) \<and>
   (conversation_states db0 = [] \<longrightarrow> state_invariant (run db0 evs))"
proof (intro conjI impI)
  show "state_invariant (apply_event db ev)" if "state_invariant db"
    using that by (rule state_invariant_apply_event)
  show "state_invariant (run db0 evs)" if "conversation_states db0 = []"
  proof -
    have "state_invariant db0" using that by (simp add: state_invariant_def)
    then show ?thesis by (rule state_invariant_run)
  qed
qed

lemma startswith_examples:
  "startswith press_great_1 ''answer_''" "startswith ''skip_2'' ''skip_''"
  "\<not> startswith ''skip_2'' ''answer_''"
  by (simp_all add: startswith_def press_great_1_def)

lemma run_scenario:
  "run db_start [JournalCommand 7 (Some ''alice'') ''s1'' 100,
                 ButtonCallback 7 press_great_1 200,
                 ButtonCallback 7 ''skip_2'' 300] = db_done"
  by (simp add: run_def journal_command_db_start button_callback_def startswith_examples
        first_press_great_1 skip_2_completes)

theorem state_invariant_witness:
  "run db_start [JournalCommand 7 (Some ''alice'') ''s1'' 100,
                 ButtonCallback 7 press_great_1 200,
                 ButtonCallback 7 ''skip_2'' 300] = db_done \<and>
   state_invariant db_done \<and>
   conversation_of db_done 7 = Some (None, Some ''s1'', None) \<and>
   state_invariant (apply_event db_done (JournalCommand 7 (Some ''alice'') ''s2'' 400))"
proof -
  have e: "conversation_states db_start = []" by (simp add: db_start_def)
  have i: "state_invariant db_done"
    using state_invariant_preserved_and_reachable
            [of db_start "StartCommand 7 None 0" db_start
               "[JournalCommand 7 (Some ''alice'') ''s1'' 100,
                 ButtonCallback 7 press_great_1 200,
                 ButtonCallback 7 ''skip_2'' 300]"] e
    by (simp add: run_scenario)
  have c: "conversation_of db_done 7 = Some (None, Some ''s1'', None)"
    by (simp add: conversation_of_def find_state_examples cs_asked_1_def)
  have j: "state_invariant (apply_event db_done (JournalCommand 7 (Some ''alice'') ''s2'' 400))"
    using state_invariant_preserved_and_reachable
            [of db_done "JournalCommand 7 (Some ''alice'') ''s2'' 400" db_start "[]"] i
    by blast
  show ?thesis using run_scenario i c j by blast
qed

section \<open>Erasing a user's data\<close>

text \<open>
  What the erase branch of \<open>handle_settings_callback\<close> does delete: the user's row
  and, by the cascade, every schedule and response of the user.
\<close>

lemma erase_deletes_user_schedules_responses:
  assumes "find_user db tid = Some u"
  shows "fst (handle_settings_callback db tid ''confirm_clear_yes'') = delete_user db u"
    and "u \<notin> set (users (delete_user db u))"
    and "filter (\<lambda>s. s_user_id s = u_id u) (schedules (delete_user db u)) = []"
    and "filter (\<lambda>r. r_user_id r = u_id u) (responses (delete_user db u)) = []"
    and "conversation_states (delete_user db u) = conversation_states db"
  using assms by (simp_all add: handle_settings_callback_def delete_user_def)

text \<open>With no row for the user the erase branch changes nothing and raises nothing.\<close>

lemma erase_unknown_user:
  "find_user db tid = None \<Longrightarrow>
   handle_settings_callback db tid ''confirm_clear_yes'' = (db, DataCleared)"
  by (simp add: handle_settings_callback_def)

lemma find_user_delete_user:
  assumes "find_user db tid = Some u" and "distinct (map u_id (users db))"
    and "distinct (map u_telegram_id (users db))"
  shows "find_user (delete_user db u) tid = None"
proof -
  have t: "u_telegram_id u = tid" using assms(1) by (rule find_user_telegram_id)
  have m: "u \<in> set (users db)" using assms(1) by (auto simp: find_user_def find_Some_iff)
  have "u_id x = u_id u" if "x \<in> set (users db)" "u_telegram_id x = tid" for x
    using that m t assms(3) by (metis distinct_map inj_onD)
  then show ?thesis
    by (auto simp: find_user_def delete_user_def find_None_iff)
qed

lemma erase_twice:
  assumes "find_user db tid = Some u" and "distinct (map u_id (users db))"
    and "distinct (map u_telegram_id (users db))"
  shows "handle_settings_callback (fst (handle_settings_callback db tid ''confirm_clear_yes''))
           tid ''confirm_clear_yes'' =
         (fst (handle_settings_callback db tid ''confirm_clear_yes''), DataCleared)"
  using erase_deletes_user_schedules_responses(1) [OF assms(1)]
    erase_unknown_user [OF find_user_delete_user [OF assms]]
  by simp

lemma find_state_users: "find_state (db\<lparr>users := us\<rparr>) tid = find_state db tid"
  by (simp add: find_state_def)

text \<open>
  C7 fails on the code. Alice is in a session (question 2 outstanding). The button
  "Yes, delete everything" sends \<open>confirm_clear_yes\<close>, which has none of the prefixes
  \<open>button_callback\<close> dispatches on: nothing is deleted. And the erase branch of
  \<open>handle_settings_callback\<close>, called directly, deletes her \<open>User\<close> row and her
  responses but leaves her \<open>ConversationState\<close> row, still in mode \<open>"journaling"\<close>;
  her next answer then ends in \<open>AttributeError\<close>, the state row having no user.
\<close>

theorem erase_leaves_conversation_state:
  "button_callback db_asked_2 7 ''confirm_clear_yes'' 300 = (db_asked_2, Inr NotHandled) \<and>
   handle_settings_callback db_asked_2 7 ''confirm_clear_yes'' =
     (db_asked_2\<lparr>users := [], responses := []\<rparr>, DataCleared) \<and>
   conversation_of (fst (handle_settings_callback db_asked_2 7 ''confirm_clear_yes'')) 7 =
     Some (Some 2, Some ''s1'', Some ''journaling'') \<and>
   handle_answer_callback (fst (handle_settings_callback db_asked_2 7 ''confirm_clear_yes'')) 7
     press_yes_2 400 = ([], Inl AttributeError)"
proof -
  have a: "button_callback db_asked_2 7 ''confirm_clear_yes'' 300 = (db_asked_2, Inr NotHandled)"
    by (simp add: button_callback_def startswith_def)
  have b: "handle_settings_callback db_asked_2 7 ''confirm_clear_yes'' =
     (db_asked_2\<lparr>users := [], responses := []\<rparr>, DataCleared)"
    by (simp add: handle_settings_callback_def find_user_def delete_user_def
          db_asked_2_def db_start_def alice_def response_1_def)
  have s: "find_state (db_asked_2\<lparr>users := [], responses := []\<rparr>) 7 =
     Some (cs_asked_1\<lparr>cs_current_question_id := Some 2, cs_updated_at := 200\<rparr>)"
    by (simp add: find_state_users find_state_examples)
  have c: "conversation_of (db_asked_2\<lparr>users := [], responses := []\<rparr>) 7 =
     Some (Some 2, Some ''s1'', Some ''journaling'')"
    unfolding conversation_of_def s by (simp add: cs_asked_1_def)
  have u: "find_user (db_asked_2\<lparr>users := [], responses := []\<rparr>) 7 = None"
    by (simp add: find_user_def)
  have d: "handle_answer_callback (db_asked_2\<lparr>users := [], responses := []\<rparr>) 7 press_yes_2 400 =
     ([], Inl AttributeError)"
    unfolding handle_answer_callback_def parse_press_yes_2 s save_response_def u
    by (simp add: cs_asked_1_def)
  show ?thesis using a b c d by simp
qed

end
